theory Spec2Isabelle
  imports
    Main
    "HOL-Library.Char_ord"
    "HOL-Library.List_Lexorder"
    "HOL-Library.Option_ord"
    "HOL-Library.Multiset"
begin

chapter \<open>The relationship tracker: data access and reminder notifications\<close>

text \<open>
  The application keeps profiles of people in an embedded SQLite database
  (\<^verbatim>\<open>DatabaseService\<close>) and schedules local notifications for reminders
  (\<^verbatim>\<open>NotificationService\<close>). Both services are TypeScript classes whose methods are
  \<^verbatim>\<open>async\<close>; the application awaits every call, so each method is modelled as a function
  from the state before the call to its result and the state after it. A rejected promise
  or a thrown exception is the \<open>Inl\<close> branch of a sum, a resolved one the \<open>Inr\<close> branch.
  Console output is not part of the state and is left out.
\<close>

section \<open>Values\<close>

subsection \<open>Exceptions\<close>

text \<open>
  A value that is thrown: the error classes the program meets, and an error object whose
  properties refer back to it (\<open>CircularError\<close>), as an error that carries its request
  and response does.
\<close>

datatype error =
  SyntaxError string | TypeError string | SqliteError string | Error string
  | CircularError string

subsection \<open>JSON values and their text\<close>

text \<open>
  The list-valued profile fields hold arrays of strings, and tags are objects
  \<^verbatim>\<open>{text, color: {name, light, dark, text}}\<close>. Such values are built from \<^verbatim>\<open>null\<close>,
  booleans, strings, arrays and objects; an object is the list of its properties in
  enumeration order. Numbers are IEEE doubles and no list field of the application holds
  one: they are outside this datatype. A string is a list of 8-bit characters.

  \<open>stringify\<close> is \<^verbatim>\<open>JSON.stringify\<close> with one argument: no white space, the short escapes
  for backspace, form feed, newline, carriage return and tab, \<^verbatim>\<open>\u00xx\<close> (lower-case
  hexadecimal) for the other control characters.
\<close>

datatype json = JNull | JBool bool | JString string | JArray "json list" | JObject "(string \<times> json) list"

definition hex_digit :: "nat \<Rightarrow> char" where
  "hex_digit d = (if d < 10 then char_of (48 + d) else char_of (87 + d))"

fun escape_char :: "char \<Rightarrow> string" where
  "escape_char c =
     (if c = CHR 0x22 then [CHR 0x5C, CHR 0x22]
      else if c = CHR 0x5C then [CHR 0x5C, CHR 0x5C]
      else if c = CHR 0x08 then [CHR 0x5C, CHR ''b'']
      else if c = CHR 0x0C then [CHR 0x5C, CHR ''f'']
      else if c = CHR 0x0A then [CHR 0x5C, CHR ''n'']
      else if c = CHR 0x0D then [CHR 0x5C, CHR ''r'']
      else if c = CHR 0x09 then [CHR 0x5C, CHR ''t'']
      else if (of_char c :: nat) < 32
        then [CHR 0x5C, CHR ''u'', CHR ''0'', CHR ''0'', hex_digit (of_char c div 16), hex_digit (of_char c mod 16)]
      else [c])"

fun stringify :: "json \<Rightarrow> string"
and stringify_elements :: "json list \<Rightarrow> string"
and stringify_members :: "(string \<times> json) list \<Rightarrow> string"
where
  "stringify JNull = ''null''"
| "stringify (JBool b) = (if b then ''true'' else ''false'')"
| "stringify (JString s) = CHR 0x22 # concat (map escape_char s) @ [CHR 0x22]"
| "stringify (JArray xs) = CHR ''['' # stringify_elements xs"
| "stringify (JObject kvs) = CHR ''{'' # stringify_members kvs"
| "stringify_elements [] = '']''"
| "stringify_elements [x] = stringify x @ '']''"
| "stringify_elements (x # y # ys) = stringify x @ CHR '','' # stringify_elements (y # ys)"
| "stringify_members [] = ''}''"
| "stringify_members [(k, v)] = CHR 0x22 # concat (map escape_char k) @ CHR 0x22 # CHR '':'' # stringify v @ ''}''"
| "stringify_members ((k, v) # m # ms) = CHR 0x22 # concat (map escape_char k) @ CHR 0x22 # CHR '':'' # stringify v @ CHR '','' # stringify_members (m # ms)"


definition hex_val :: "char \<Rightarrow> nat option" where
  "hex_val c =
     (let n = (of_char c :: nat) in
      if 48 \<le> n \<and> n \<le> 57 then Some (n - 48)
      else if 97 \<le> n \<and> n \<le> 102 then Some (n - 87)
      else if 65 \<le> n \<and> n \<le> 70 then Some (n - 55)
      else None)"

fun unescape :: "string \<Rightarrow> (char \<times> string) option" where
  "unescape [] = None"
| "unescape (e # cs) =
     (if e = CHR 0x22 then Some (CHR 0x22, cs)
      else if e = CHR 0x5C then Some (CHR 0x5C, cs)
      else if e = CHR ''/'' then Some (CHR ''/'', cs)
      else if e = CHR ''b'' then Some (CHR 0x08, cs)
      else if e = CHR ''f'' then Some (CHR 0x0C, cs)
      else if e = CHR ''n'' then Some (CHR 0x0A, cs)
      else if e = CHR ''r'' then Some (CHR 0x0D, cs)
      else if e = CHR ''t'' then Some (CHR 0x09, cs)
      else if e = CHR ''u'' then
        (case cs of
           h1 # h2 # h3 # h4 # rest \<Rightarrow>
             (case (hex_val h1, hex_val h2, hex_val h3, hex_val h4) of
                (Some a, Some b, Some c, Some d) \<Rightarrow>
                  (let n = ((a * 16 + b) * 16 + c) * 16 + d
                   in if n < 256 then Some (char_of n, rest) else None)
              | _ \<Rightarrow> None)
         | _ \<Rightarrow> None)
      else None)"

text \<open>
  \<^verbatim>\<open>JSON.parse\<close> reads a string body up to the closing quote. After a backslash it accepts
  the escapes of the JSON grammar; a raw control character is a syntax error.
\<close>

lemma unescape_shorter: "unescape cs = Some (ch, rest) \<Longrightarrow> length rest < length cs"
  by (cases cs) (auto split: if_splits list.splits option.splits simp: Let_def)

function parse_chars :: "string \<Rightarrow> (string \<times> string) option" where
  "parse_chars [] = None"
| "parse_chars (c # cs) =
     (if c = CHR 0x22 then Some ([], cs)
      else if c = CHR 0x5C then
        (case unescape cs of
           None \<Rightarrow> None
         | Some (ch, rest) \<Rightarrow>
             (case parse_chars rest of
                None \<Rightarrow> None
              | Some (str, rest') \<Rightarrow> Some (ch # str, rest')))
      else if (of_char c :: nat) < 32 then None
      else (case parse_chars cs of
              None \<Rightarrow> None
            | Some (str, rest') \<Rightarrow> Some (c # str, rest')))"
  by pat_completeness auto
termination
  by (relation "measure length") (auto dest: unescape_shorter)


text \<open>
  The value parser is a recursive descent over the text. Its first argument bounds the
  number of nested calls; the length of the text is always enough, and \<open>JSON_parse\<close>
  passes it. The parser accepts the texts without white space and without numbers, which
  are the texts \<open>stringify\<close> writes; any other text is a \<^verbatim>\<open>SyntaxError\<close>, as is text left
  over after the value.
\<close>

fun parse_value :: "nat \<Rightarrow> string \<Rightarrow> (json \<times> string) option"
and parse_elements :: "nat \<Rightarrow> string \<Rightarrow> (json list \<times> string) option"
and parse_members :: "nat \<Rightarrow> string \<Rightarrow> ((string \<times> json) list \<times> string) option"
where
  "parse_value 0 s = None"
| "parse_value (Suc n) [] = None"
| "parse_value (Suc n) (c # cs) =
     (if c = CHR ''n'' then (if take 3 cs = ''ull'' then Some (JNull, drop 3 cs) else None)
      else if c = CHR ''t'' then (if take 3 cs = ''rue'' then Some (JBool True, drop 3 cs) else None)
      else if c = CHR ''f'' then (if take 4 cs = ''alse'' then Some (JBool False, drop 4 cs) else None)
      else if c = CHR 0x22 then
        (case parse_chars cs of
           None \<Rightarrow> None
         | Some (str, rest) \<Rightarrow> Some (JString str, rest))
      else if c = CHR ''['' then
        (case cs of
           [] \<Rightarrow> None
         | d # ds \<Rightarrow>
             if d = CHR '']'' then Some (JArray [], ds)
             else (case parse_elements n cs of
                     None \<Rightarrow> None
                   | Some (xs, rest) \<Rightarrow> Some (JArray xs, rest)))
      else if c = CHR ''{'' then
        (case cs of
           [] \<Rightarrow> None
         | d # ds \<Rightarrow>
             if d = CHR ''}'' then Some (JObject [], ds)
             else (case parse_members n cs of
                     None \<Rightarrow> None
                   | Some (kvs, rest) \<Rightarrow> Some (JObject kvs, rest)))
      else None)"
| "parse_elements 0 s = None"
| "parse_elements (Suc n) s =
     (case parse_value n s of
        None \<Rightarrow> None
      | Some (x, rest) \<Rightarrow>
          (case rest of
             [] \<Rightarrow> None
           | c # cs \<Rightarrow>
               if c = CHR '','' then
                 (case parse_elements n cs of
                    None \<Rightarrow> None
                  | Some (xs, rest') \<Rightarrow> Some (x # xs, rest'))
               else if c = CHR '']'' then Some ([x], cs)
               else None))"
| "parse_members 0 s = None"
| "parse_members (Suc n) [] = None"
| "parse_members (Suc n) (c # cs) =
     (if c \<noteq> CHR 0x22 then None
      else
        (case parse_chars cs of
           None \<Rightarrow> None
         | Some (k, rest) \<Rightarrow>
             (case rest of
                [] \<Rightarrow> None
              | d # ds \<Rightarrow>
                  if d \<noteq> CHR '':'' then None
                  else
                    (case parse_value n ds of
                       None \<Rightarrow> None
                     | Some (v, rest') \<Rightarrow>
                         (case rest' of
                            [] \<Rightarrow> None
                          | e # es \<Rightarrow>
                              if e = CHR '','' then
                                (case parse_members n es of
                                   None \<Rightarrow> None
                                 | Some (kvs, r) \<Rightarrow> Some ((k, v) # kvs, r))
                              else if e = CHR ''}'' then Some ([(k, v)], es)
                              else None)))))"

definition JSON_parse :: "string \<Rightarrow> error + json" where
  "JSON_parse s =
     (case parse_value (length s) s of
        Some (v, []) \<Rightarrow> Inr v
      | _ \<Rightarrow> Inl (SyntaxError ''JSON Parse error''))"


section \<open>NotificationService\<close>

text \<open>
  The operating system's notification centre is outside the program. Each call into it
  either resolves or rejects, and the outcome is an input of the model
  (\<open>notification_env\<close>); the requests the centre holds are state. A \<^verbatim>\<open>Date\<close> is its time
  value, the number of milliseconds since the epoch.
\<close>

datatype permission_status = Granted | Denied | Undetermined

datatype platform = Ios | Android | Web

record notification_env =
  Platform_OS :: platform
  getPermissionsAsync :: "error + permission_status"
  requestPermissionsAsync :: "error + permission_status"
  setNotificationChannelAsync :: "error + unit"
  scheduleNotificationAsync :: "error + string"
  getAllScheduledNotificationsAsync :: "error + unit"

record notification_content =
  content_title :: string
  content_body :: string
  data_reminderId :: int
  data_type :: string
  content_sound :: bool
  content_priority :: string

record notification_trigger =
  trigger_date :: int
  trigger_channelId :: "string option"

record notification_request =
  request_identifier :: string
  request_content :: notification_content
  request_trigger :: notification_trigger

text \<open>The argument of \<^verbatim>\<open>scheduleReminderNotification\<close>.\<close>

record reminder_arg =
  arg_id :: int
  arg_title :: string
  arg_description :: "string option"
  arg_scheduledFor :: int
  arg_profileName :: "string option"

record notification_service =
  isInitialized :: bool

text \<open>
  \<^verbatim>\<open>init\<close> returns \<^verbatim>\<open>undefined\<close> (\<open>None\<close>) when the service is already initialised,
  \<^verbatim>\<open>false\<close> when permission is not granted or a call raises, \<^verbatim>\<open>true\<close> otherwise.
\<close>

definition init :: "notification_env \<Rightarrow> notification_service \<Rightarrow> bool option \<times> notification_service" where
  "init env svc =
     (if isInitialized svc then (None, svc)
      else
        (case getPermissionsAsync env of
           Inl e \<Rightarrow> (Some False, svc)
         | Inr existingStatus \<Rightarrow>
             (case (if existingStatus \<noteq> Granted then requestPermissionsAsync env
                    else Inr existingStatus) of
                Inl e \<Rightarrow> (Some False, svc)
              | Inr finalStatus \<Rightarrow>
                  if finalStatus \<noteq> Granted then (Some False, svc)
                  else
                    (case (if Platform_OS env = Android then setNotificationChannelAsync env
                           else Inr ()) of
                       Inl e \<Rightarrow> (Some False, svc)
                     | Inr u \<Rightarrow> (Some True, svc\<lparr>isInitialized := True\<rparr>)))))"

definition minimumBufferMs :: int where
  "minimumBufferMs = 5000"

text \<open>
  \<^verbatim>\<open>reminder.description || (reminder.profileName ? ... : 'You have a reminder')\<close>:
  an absent or empty string is falsy.
\<close>

definition notification_body :: "reminder_arg \<Rightarrow> string" where
  "notification_body reminder =
     (case arg_description reminder of
        Some (c # cs) \<Rightarrow> c # cs
      | _ \<Rightarrow>
          (case arg_profileName reminder of
             Some (c # cs) \<Rightarrow> ''Reminder about '' @ c # cs
           | _ \<Rightarrow> ''You have a reminder''))"

text \<open>
  The result is the identifier, \<^verbatim>\<open>null\<close> (\<open>None\<close>) for a date that is not in the future,
  or the exception raised. The reminder is returned too: \<^verbatim>\<open>setTime\<close> changes the caller's
  \<^verbatim>\<open>Date\<close> object. \<open>now\<close> is the clock reading of \<^verbatim>\<open>new Date()\<close>.
\<close>

definition scheduleReminderNotification ::
  "notification_env \<Rightarrow> int \<Rightarrow> reminder_arg \<Rightarrow> notification_service \<times> notification_request list
     \<Rightarrow> (error + string option) \<times> reminder_arg \<times> notification_service \<times> notification_request list" where
  "scheduleReminderNotification env now reminder st =
     (let (svc, os) = st
      in case (if \<not> isInitialized svc then
                 (let (initialized, svc') = init env svc
                  in if initialized \<noteq> Some True
                     then Inl (Error ''Notifications not initialized'')
                     else Inr svc')
               else Inr svc) of
           Inl e \<Rightarrow> (Inl e, reminder, svc, os)
         | Inr svc' \<Rightarrow>
             if arg_scheduledFor reminder \<le> now then (Inr None, reminder, svc', os)
             else
               (let timeDifferenceMs = arg_scheduledFor reminder - now;
                    reminder' = (if timeDifferenceMs < minimumBufferMs
                                 then reminder\<lparr>arg_scheduledFor := now + minimumBufferMs\<rparr>
                                 else reminder);
                    notificationContent =
                      \<lparr>content_title = arg_title reminder',
                       content_body = notification_body reminder',
                       data_reminderId = arg_id reminder',
                       data_type = ''reminder'',
                       content_sound = True,
                       content_priority = ''high''\<rparr>;
                    triggerObject =
                      \<lparr>trigger_date = arg_scheduledFor reminder',
                       trigger_channelId =
                         (if Platform_OS env = Android then Some ''reminders'' else None)\<rparr>
                in case scheduleNotificationAsync env of
                     Inl e \<Rightarrow> (Inl e, reminder', svc', os)
                   | Inr notificationId \<Rightarrow>
                       (let os' = os @ [\<lparr>request_identifier = notificationId,
                                          request_content = notificationContent,
                                          request_trigger = triggerObject\<rparr>]
                        in case getAllScheduledNotificationsAsync env of
                             Inl e \<Rightarrow> (Inl e, reminder', svc', os')
                           | Inr u \<Rightarrow> (Inr (Some notificationId), reminder', svc', os'))))"

section \<open>DatabaseService\<close>

subsection \<open>Profiles\<close>

text \<open>
  A profile object has the same properties in the argument of
  \<^verbatim>\<open>createOrUpdateProfile\<close>, in a row of the \<^verbatim>\<open>profiles\<close> table and in the objects the
  queries return; what differs is the identifier and the representation of the ten
  list-valued properties:
  \<^item> in the argument the identifier may be absent, and a list property is absent
    (\<open>None\<close>, the case the destructuring default \<^verbatim>\<open>= []\<close> covers) or holds a value: an
    array when it comes from the forms, but the argument is untyped and \<^verbatim>\<open>null\<close> or any
    other value can stand there;
  \<^item> in a row a list is a \<^verbatim>\<open>TEXT\<close> column: \<open>None\<close> is \<^verbatim>\<open>NULL\<close>;
  \<^item> in a returned object a list is whatever value the query computed, or absent.

  For the other properties \<open>None\<close> stands for \<^verbatim>\<open>null\<close> and \<^verbatim>\<open>undefined\<close> alike: both are bound
  as \<^verbatim>\<open>NULL\<close>, and \<^verbatim>\<open>NULL\<close> is read as \<^verbatim>\<open>null\<close>. The forms supply strings for the text
  properties and an integer for \<^verbatim>\<open>age\<close>.
\<close>

record ('i, 'l) profile =
  id' :: 'i
  name :: "string option"
  age :: "int option"
  phone :: "string option"
  email :: "string option"
  relationship :: "string option"
  job :: "string option"
  notes' :: "string option"
  tags :: 'l
  photoUri :: "string option"
  parents :: 'l
  kids :: 'l
  brothers :: 'l
  sisters :: 'l
  siblings :: 'l
  pets :: 'l
  foodLikes :: 'l
  foodDislikes :: 'l
  interests :: 'l
  instagram :: "string option"
  snapchat :: "string option"
  twitter :: "string option"
  tiktok :: "string option"
  facebook :: "string option"
  birthday :: "string option"
  lastContactDate :: "string option"
  createdAt :: "string option"
  updatedAt :: "string option"

type_synonym profile_data = "(int option, json option) profile"

type_synonym profile_row = "(int, string option) profile"

type_synonym profile_object = "(int, json option) profile"

subsection \<open>The other tables\<close>

record reminder_row =
  r_id :: int
  r_profileId :: "int option"
  r_title :: string
  r_description :: "string option"
  r_type :: "string option"
  r_scheduledFor :: string
  r_completed :: "int option"
  r_completedAt :: "string option"
  r_notificationId :: "string option"
  r_createdAt :: "string option"

text \<open>A reminder as the join with \<^verbatim>\<open>profiles\<close> returns it.\<close>

record reminder_object = reminder_row +
  profileName :: "string option"
  profilePhoto :: "string option"

record interaction_row =
  i_id :: int
  i_profileId :: "int option"
  i_description :: string
  i_extractedData :: "string option"
  i_type :: "string option"
  i_location :: "string option"
  i_createdAt :: "string option"

record life_event_row =
  e_id :: int
  e_profileId :: "int option"
  e_eventType :: string
  e_description :: "string option"
  e_eventDate :: "string option"
  e_importance :: "int option"
  e_createdAt :: "string option"

record feedback_row =
  f_id :: int
  f_type :: string
  f_subject :: string
  f_message :: string
  f_userEmail :: "string option"
  f_deviceInfo :: "string option"
  f_appVersion :: "string option"
  f_status :: "string option"
  f_createdAt :: "string option"

text \<open>
  The database is its five tables, each the list of its rows in insertion order, and the
  \<^verbatim>\<open>sqlite_sequence\<close> entry of \<^verbatim>\<open>profiles\<close>, which \<^verbatim>\<open>AUTOINCREMENT\<close> maintains.
\<close>

record database =
  profiles :: "profile_row list"
  profiles_seq :: int
  interactions :: "interaction_row list"
  reminders :: "reminder_row list"
  life_events :: "life_event_row list"
  feedback :: "feedback_row list"

text \<open>
  The service after \<^verbatim>\<open>ensureReady\<close>: the database handle, \<^verbatim>\<open>null\<close> before it is opened,
  and the web-fallback flag.
\<close>

record database_service =
  db :: "database option"
  isWebFallback :: bool

definition null_db :: error where
  "null_db = TypeError ''Cannot read property of null''"

subsection \<open>Reading profiles\<close>

definition mock_profiles :: "profile_object list" where
  "mock_profiles =
     [\<lparr>id' = 1, name = Some ''John Doe'', age = Some 30, phone = Some ''+1234567890'',
       email = Some ''john@example.com'', relationship = Some ''Friend'',
       job = Some ''Software Engineer'', notes' = Some ''Met at conference last year'',
       tags = Some (JArray [JString ''tech'', JString ''colleague'']), photoUri = None,
       parents = None, kids = Some (JArray []), brothers = None, sisters = None,
       siblings = Some (JArray [JString ''Jane Doe'']),
       pets = Some (JArray [JString ''Max (dog)'']),
       foodLikes = Some (JArray [JString ''pizza'', JString ''sushi'']),
       foodDislikes = Some (JArray [JString ''mushrooms'']),
       interests = Some (JArray [JString ''coding'', JString ''hiking'']),
       instagram = None, snapchat = None, twitter = None, tiktok = None, facebook = None,
       birthday = Some ''1994-05-15'', lastContactDate = Some ''2024-01-15'',
       createdAt = Some ''2024-01-01T00:00:00.000Z'',
       updatedAt = Some ''2024-01-15T00:00:00.000Z''\<rparr>,
      \<lparr>id' = 2, name = Some ''Sarah Smith'', age = Some 28, phone = Some ''+1987654321'',
       email = Some ''sarah@example.com'', relationship = Some ''Colleague'',
       job = Some ''Designer'', notes' = Some ''Great at UI/UX design'',
       tags = Some (JArray [JString ''design'', JString ''creative'']), photoUri = None,
       parents = None, kids = Some (JArray []), brothers = None, sisters = None,
       siblings = Some (JArray []),
       pets = Some (JArray [JString ''Luna (cat)'']),
       foodLikes = Some (JArray [JString ''pasta'', JString ''salads'']),
       foodDislikes = Some (JArray [JString ''spicy food'']),
       interests = Some (JArray [JString ''art'', JString ''photography'']),
       instagram = None, snapchat = None, twitter = None, tiktok = None, facebook = None,
       birthday = Some ''1996-03-22'', lastContactDate = Some ''2024-01-10'',
       createdAt = Some ''2024-01-01T00:00:00.000Z'',
       updatedAt = Some ''2024-01-10T00:00:00.000Z''\<rparr>]"

definition and_then :: "error + 'a \<Rightarrow> ('a \<Rightarrow> error + 'b) \<Rightarrow> error + 'b" where
  "and_then m f = (case m of Inl e \<Rightarrow> Inl e | Inr x \<Rightarrow> f x)"

text \<open>
  \<^verbatim>\<open>column ? JSON.parse(column) : []\<close>: \<^verbatim>\<open>NULL\<close> and the empty string are falsy.
\<close>

definition read_list :: "string option \<Rightarrow> error + json" where
  "read_list column =
     (case column of
        None \<Rightarrow> Inr (JArray [])
      | Some s \<Rightarrow> if s = [] then Inr (JArray []) else JSON_parse s)"

text \<open>The object literal that spreads a row and replaces its ten list columns.\<close>

definition parse_lists :: "profile_row \<Rightarrow> error + profile_object" where
  "parse_lists result =
     and_then (read_list (tags result)) (\<lambda>tags'.
     and_then (read_list (parents result)) (\<lambda>parents'.
     and_then (read_list (kids result)) (\<lambda>kids'.
     and_then (read_list (brothers result)) (\<lambda>brothers'.
     and_then (read_list (sisters result)) (\<lambda>sisters'.
     and_then (read_list (siblings result)) (\<lambda>siblings'.
     and_then (read_list (pets result)) (\<lambda>pets'.
     and_then (read_list (foodLikes result)) (\<lambda>foodLikes'.
     and_then (read_list (foodDislikes result)) (\<lambda>foodDislikes'.
     and_then (read_list (interests result)) (\<lambda>interests'.
       Inr \<lparr>id' = id' result, name = name result, age = age result, phone = phone result,
            email = email result, relationship = relationship result, job = job result,
            notes' = notes' result, tags = Some tags', photoUri = photoUri result,
            parents = Some parents', kids = Some kids', brothers = Some brothers',
            sisters = Some sisters', siblings = Some siblings', pets = Some pets',
            foodLikes = Some foodLikes', foodDislikes = Some foodDislikes',
            interests = Some interests', instagram = instagram result,
            snapchat = snapchat result, twitter = twitter result, tiktok = tiktok result,
            facebook = facebook result, birthday = birthday result,
            lastContactDate = lastContactDate result, createdAt = createdAt result,
            updatedAt = updatedAt result\<rparr>))))))))))"

text \<open>\<^verbatim>\<open>result.map(...)\<close> with a callback that may raise: the first exception ends it.\<close>

fun collect :: "(error + 'a) list \<Rightarrow> error + 'a list" where
  "collect [] = Inr []"
| "collect (m # ms) =
     (case m of
        Inl e \<Rightarrow> Inl e
      | Inr x \<Rightarrow> (case collect ms of Inl e \<Rightarrow> Inl e | Inr xs \<Rightarrow> Inr (x # xs)))"

text \<open>
  \<^verbatim>\<open>ORDER BY updatedAt DESC\<close> compares the stored text bytewise, \<^verbatim>\<open>NULL\<close> below every text.
  SQLite leaves the order of rows with equal keys open; here they come in reverse
  insertion order.
\<close>

definition getAllProfiles :: "database_service \<Rightarrow> error + profile_object list" where
  "getAllProfiles svc =
     (if isWebFallback svc then Inr mock_profiles
      else
        (case db svc of
           None \<Rightarrow> Inl null_db
         | Some d \<Rightarrow> collect (map parse_lists (rev (sort_key updatedAt (profiles d))))))"

definition getProfileById :: "int \<Rightarrow> database_service \<Rightarrow> error + profile_object option" where
  "getProfileById i svc =
     (if isWebFallback svc then
        (case getAllProfiles svc of
           Inl e \<Rightarrow> Inl e
         | Inr mockProfiles \<Rightarrow> Inr (find (\<lambda>profile. id' profile = i) mockProfiles))
      else
        (case db svc of
           None \<Rightarrow> Inl null_db
         | Some d \<Rightarrow>
             (case find (\<lambda>row. id' row = i) (profiles d) of
                None \<Rightarrow> Inr None
              | Some result \<Rightarrow> and_then (parse_lists result) (\<lambda>p. Inr (Some p)))))"

subsection \<open>Remote collection\<close>

text \<open>
  The authentication service and the remote backend are outside the program; the
  outcome of each call is an input. A session may be missing, or carry no user
  identifier; the client may be missing; the insert resolves with or without an error
  object, or rejects.
\<close>

datatype operation_type = Create | Update

record session =
  user_id :: "string option"

record remote_env =
  AuthService_getSession :: "error + session option"
  AuthService_init :: "error + unit"
  AuthService_supabase :: "(error + error option) option"

text \<open>
  \<^verbatim>\<open>JSON.stringify(error, null, 2)\<close>, evaluated for a log line: it raises a \<^verbatim>\<open>TypeError\<close>
  on a circular structure. The text itself only goes to the console.
\<close>

definition render_error :: "error \<Rightarrow> error + unit" where
  "render_error e =
     (case e of
        CircularError m \<Rightarrow> Inl (TypeError ''Converting circular structure to JSON'')
      | _ \<Rightarrow> Inr ())"

text \<open>
  The body of the \<^verbatim>\<open>try\<close> block: \<open>Inl\<close> is an exception raised inside it. An error
  object the insert resolves with is logged, also as JSON text.
\<close>

definition collection_attempt ::
  "remote_env \<Rightarrow> profile_data \<Rightarrow> operation_type \<Rightarrow> int option \<Rightarrow> error + unit" where
  "collection_attempt env profileData operationType profileId =
     and_then (AuthService_getSession env) (\<lambda>session.
       (case session of
          None \<Rightarrow> Inr ()
        | Some s \<Rightarrow>
            (case user_id s of
               None \<Rightarrow> Inr ()
             | Some [] \<Rightarrow> Inr ()
             | Some (c # cs) \<Rightarrow>
                 and_then (AuthService_init env) (\<lambda>u.
                   (case AuthService_supabase env of
                      None \<Rightarrow> Inr ()
                    | Some insertion \<Rightarrow>
                        and_then insertion (\<lambda>err.
                          (case err of
                             Some e \<Rightarrow> render_error e
                           | None \<Rightarrow> Inr ())))))))"

text \<open>
  The \<^verbatim>\<open>catch\<close> clause logs the caught value, also as JSON text, and returns. An
  exception raised by that rendering leaves the function.
\<close>

definition logProfileDataForCollection ::
  "remote_env \<Rightarrow> profile_data \<Rightarrow> operation_type \<Rightarrow> int option \<Rightarrow> error + unit" where
  "logProfileDataForCollection env profileData operationType profileId =
     (case collection_attempt env profileData operationType profileId of
        Inl error \<Rightarrow> render_error error
      | Inr u \<Rightarrow> Inr ())"

subsection \<open>Saving a profile\<close>

text \<open>
  \<^verbatim>\<open>JSON.stringify(list)\<close> after the destructuring default, which replaces an absent
  property only.
\<close>

definition list_text :: "json option \<Rightarrow> string option" where
  "list_text l = Some (stringify (case l of None \<Rightarrow> JArray [] | Some v \<Rightarrow> v))"

text \<open>The values both statements bind, column by column.\<close>

definition bound_row ::
  "int \<Rightarrow> string option \<Rightarrow> string option \<Rightarrow> profile_data \<Rightarrow> profile_row" where
  "bound_row i created updated profileData =
     \<lparr>id' = i, name = name profileData, age = age profileData, phone = phone profileData,
      email = email profileData, relationship = relationship profileData,
      job = job profileData, notes' = notes' profileData,
      tags = list_text (tags profileData), photoUri = photoUri profileData,
      parents = list_text (parents profileData), kids = list_text (kids profileData),
      brothers = list_text (brothers profileData), sisters = list_text (sisters profileData),
      siblings = list_text (siblings profileData), pets = list_text (pets profileData),
      foodLikes = list_text (foodLikes profileData),
      foodDislikes = list_text (foodDislikes profileData),
      interests = list_text (interests profileData), instagram = instagram profileData,
      snapchat = snapchat profileData, twitter = twitter profileData,
      tiktok = tiktok profileData, facebook = facebook profileData,
      birthday = birthday profileData, lastContactDate = lastContactDate profileData,
      createdAt = created, updatedAt = updated\<rparr>"

definition not_null_name :: error where
  "not_null_name = SqliteError ''NOT NULL constraint failed: profiles.name''"

text \<open>
  \<^verbatim>\<open>UPDATE profiles SET ... , updatedAt = ? WHERE id = ?\<close>. The column \<^verbatim>\<open>name\<close> is declared
  \<^verbatim>\<open>NOT NULL\<close>; the constraint is checked on the rows the statement changes.
\<close>

definition UPDATE_profiles :: "int \<Rightarrow> profile_data \<Rightarrow> string \<Rightarrow> database \<Rightarrow> error + database" where
  "UPDATE_profiles i profileData now d =
     (if name profileData = None \<and> find (\<lambda>row. id' row = i) (profiles d) \<noteq> None
      then Inl not_null_name
      else Inr (d\<lparr>profiles :=
                   map (\<lambda>row. if id' row = i
                               then bound_row i (createdAt row) (Some now) profileData
                               else row)
                     (profiles d)\<rparr>))"

text \<open>
  \<^verbatim>\<open>INSERT INTO profiles (...) VALUES (...)\<close>. With \<^verbatim>\<open>AUTOINCREMENT\<close> the new row
  identifier is one more than the largest the table has ever held.
\<close>

definition INSERT_INTO_profiles :: "profile_data \<Rightarrow> string \<Rightarrow> database \<Rightarrow> error + int \<times> database" where
  "INSERT_INTO_profiles profileData now d =
     (if name profileData = None then Inl not_null_name
      else
        (let lastInsertRowId = fold max (map id' (profiles d)) (profiles_seq d) + 1
         in Inr (lastInsertRowId,
                 d\<lparr>profiles := profiles d @ [bound_row lastInsertRowId (Some now) (Some now) profileData],
                   profiles_seq := lastInsertRowId\<rparr>)))"

text \<open>
  \<open>now\<close> is \<^verbatim>\<open>new Date().toISOString()\<close>, \<open>rnd\<close> is \<^verbatim>\<open>Math.floor(Math.random() * 1000)\<close>.
  \<^verbatim>\<open>if (id)\<close> takes the update path for an identifier that is present and not zero.
\<close>

definition createOrUpdateProfile ::
  "remote_env \<Rightarrow> string \<Rightarrow> nat \<Rightarrow> profile_data \<Rightarrow> database_service
     \<Rightarrow> (error + int) \<times> database_service" where
  "createOrUpdateProfile env now rnd profileData svc =
     (if isWebFallback svc then
        (let mockId = (case id' profileData of
                         None \<Rightarrow> int rnd + 3
                       | Some i \<Rightarrow> if i \<noteq> 0 then i else int rnd + 3)
         in case logProfileDataForCollection env profileData
                  (case id' profileData of
                     None \<Rightarrow> Create
                   | Some i \<Rightarrow> if i \<noteq> 0 then Update else Create)
                  (Some mockId) of
              Inl e \<Rightarrow> (Inl e, svc)
            | Inr u \<Rightarrow> (Inr mockId, svc))
      else
        (case db svc of
           None \<Rightarrow> (Inl null_db, svc)
         | Some d \<Rightarrow>
             (case (case id' profileData of
                      None \<Rightarrow> None
                    | Some i \<Rightarrow> if i \<noteq> 0 then Some i else None) of
                Some i \<Rightarrow>
                  (case UPDATE_profiles i profileData now d of
                     Inl e \<Rightarrow> (Inl e, svc)
                   | Inr d' \<Rightarrow>
                       (case logProfileDataForCollection env profileData Update (Some i) of
                          Inl e \<Rightarrow> (Inl e, svc\<lparr>db := Some d'\<rparr>)
                        | Inr u \<Rightarrow> (Inr i, svc\<lparr>db := Some d'\<rparr>)))
              | None \<Rightarrow>
                  (case INSERT_INTO_profiles profileData now d of
                     Inl e \<Rightarrow> (Inl e, svc)
                   | Inr (newProfileId, d') \<Rightarrow>
                       (case logProfileDataForCollection env profileData Create
                               (Some newProfileId) of
                          Inl e \<Rightarrow> (Inl e, svc\<lparr>db := Some d'\<rparr>)
                        | Inr u \<Rightarrow> (Inr newProfileId, svc\<lparr>db := Some d'\<rparr>))))))"

subsection \<open>Reminders\<close>

text \<open>
  \<^verbatim>\<open>FROM reminders r LEFT JOIN profiles p ON r.profileId = p.id\<close>: one row for each
  matching profile, and one row with \<^verbatim>\<open>NULL\<close> for the profile's columns when none matches.
\<close>

definition left_join_profiles :: "profile_row list \<Rightarrow> reminder_row \<Rightarrow> reminder_object list" where
  "left_join_profiles ps r =
     (case filter (\<lambda>p. r_profileId r = Some (id' p)) ps of
        [] \<Rightarrow> [reminder_row.extend r (reminder_object.fields None None)]
      | m # ms \<Rightarrow>
          map (\<lambda>p. reminder_row.extend r (reminder_object.fields (name p) (photoUri p)))
            (m # ms))"

definition mock_reminders :: "(int \<Rightarrow> string) \<Rightarrow> int \<Rightarrow> reminder_object list" where
  "mock_reminders toISOString now =
     [\<lparr>r_id = 1, r_profileId = Some 1, r_title = ''Follow up with John'',
       r_description = Some ''Check on his new project'', r_type = Some ''followup'',
       r_scheduledFor = toISOString (now + 24 * 60 * 60 * 1000),
       r_completed = Some 0, r_completedAt = None, r_notificationId = None,
       r_createdAt = Some ''2024-01-01T00:00:00.000Z'',
       profileName = Some ''John Doe'', profilePhoto = None\<rparr>,
      \<lparr>r_id = 2, r_profileId = Some 2, r_title = ''Birthday reminder'',
       r_description = Some ''Sarah's birthday is coming up'', r_type = Some ''birthday'',
       r_scheduledFor = toISOString (now + 7 * 24 * 60 * 60 * 1000),
       r_completed = Some 0, r_completedAt = None, r_notificationId = None,
       r_createdAt = Some ''2024-01-01T00:00:00.000Z'',
       profileName = Some ''Sarah Smith'', profilePhoto = None\<rparr>]"

text \<open>
  \<^verbatim>\<open>ORDER BY r.scheduledFor ASC\<close> compares the stored text bytewise; rows with equal keys
  keep their order. \<open>toISOString\<close> and \<open>now\<close> are the platform's date formatting and
  clock, used by the mock data only.
\<close>

definition getAllReminders ::
  "(int \<Rightarrow> string) \<Rightarrow> int \<Rightarrow> database_service \<Rightarrow> error + reminder_object list" where
  "getAllReminders toISOString now svc =
     (if isWebFallback svc then Inr (mock_reminders toISOString now)
      else
        (case db svc of
           None \<Rightarrow> Inl null_db
         | Some d \<Rightarrow>
             Inr (sort_key r_scheduledFor
                    (concat (map (left_join_profiles (profiles d)) (reminders d))))))"

subsection \<open>Deleting a profile\<close>

definition deleteProfile :: "int \<Rightarrow> database_service \<Rightarrow> (error + unit) \<times> database_service" where
  "deleteProfile profileId svc =
     (if isWebFallback svc then (Inr (), svc)
      else
        (case db svc of
           None \<Rightarrow> (Inl null_db, svc)
         | Some d \<Rightarrow>
             (let d1 = d\<lparr>reminders := filter (\<lambda>r. r_profileId r \<noteq> Some profileId) (reminders d)\<rparr>;
                  d2 = d1\<lparr>interactions :=
                            filter (\<lambda>i. i_profileId i \<noteq> Some profileId) (interactions d1)\<rparr>;
                  d3 = d2\<lparr>life_events :=
                            filter (\<lambda>e. e_profileId e \<noteq> Some profileId) (life_events d2)\<rparr>;
                  d4 = d3\<lparr>profiles := filter (\<lambda>p. id' p \<noteq> profileId) (profiles d3)\<rparr>
              in (Inr (), svc\<lparr>db := Some d4\<rparr>))))"

subsection \<open>Schema migration\<close>












section \<open>Notions used to state the properties\<close>

subsection \<open>The notification centre\<close>




subsection \<open>The remote calls\<close>

text \<open>The values the three remote calls raise, and whether a value is circular.\<close>

definition raised :: "remote_env \<Rightarrow> error list" where
  "raised env =
     (case AuthService_getSession env of Inl e \<Rightarrow> [e] | Inr x \<Rightarrow> [])
     @ (case AuthService_init env of Inl e \<Rightarrow> [e] | Inr x \<Rightarrow> [])
     @ (case AuthService_supabase env of Some (Inl e) \<Rightarrow> [e] | _ \<Rightarrow> [])"

definition circular :: "error \<Rightarrow> bool" where
  "circular e = (case e of CircularError m \<Rightarrow> True | _ \<Rightarrow> False)"

subsection \<open>The properties of a profile, by kind\<close>

text \<open>
  The list-valued properties, and the text properties among the scalar ones, in the
  order of the table's columns. \<^verbatim>\<open>age\<close> is the one integer property.
\<close>

definition list_fields :: "('i, 'l) profile \<Rightarrow> 'l list" where
  "list_fields p =
     [tags p, parents p, kids p, brothers p, sisters p, siblings p, pets p, foodLikes p,
      foodDislikes p, interests p]"

definition text_fields :: "('i, 'l) profile \<Rightarrow> string option list" where
  "text_fields p =
     [name p, phone p, email p, relationship p, job p, notes' p, photoUri p, instagram p,
      snapchat p, twitter p, tiktok p, facebook p, birthday p, lastContactDate p]"

text \<open>
  The value a list property of the argument stands for: an absent one is the empty
  array. The forms supply arrays or leave the property out (\<open>array_or_absent\<close>).
\<close>

definition list_value :: "json option \<Rightarrow> json option" where
  "list_value l = Some (case l of None \<Rightarrow> JArray [] | Some v \<Rightarrow> v)"

definition array_or_absent :: "json option \<Rightarrow> bool" where
  "array_or_absent l = (case l of None \<Rightarrow> True | Some (JArray xs) \<Rightarrow> True | _ \<Rightarrow> False)"

definition is_array :: "json option \<Rightarrow> bool" where
  "is_array v = (case v of Some (JArray xs) \<Rightarrow> True | _ \<Rightarrow> False)"

text \<open>
  A list column at rest: \<^verbatim>\<open>NULL\<close>, or the text \<^verbatim>\<open>JSON.stringify\<close> writes for an array.
\<close>

definition stored_list :: "string option \<Rightarrow> bool" where
  "stored_list column =
     (case column of
        None \<Rightarrow> True
      | Some s \<Rightarrow>
          (case JSON_parse s of
             Inr (JArray xs) \<Rightarrow> s = stringify (JArray xs)
           | _ \<Rightarrow> False))"

text \<open>How a stored list column and the value read from it are related.\<close>

definition read_as :: "string option \<Rightarrow> json option \<Rightarrow> bool" where
  "read_as column v =
     (case column of
        None \<Rightarrow> v = Some (JArray [])
      | Some s \<Rightarrow> (case v of Some (JArray xs) \<Rightarrow> s = stringify (JArray xs) | _ \<Rightarrow> False))"

text \<open>The invariant of the table: every list column is \<^verbatim>\<open>NULL\<close> or serialized array text.\<close>

definition lists_at_rest :: "database \<Rightarrow> bool" where
  "lists_at_rest d = list_all (\<lambda>row. list_all stored_list (list_fields row)) (profiles d)"

text \<open>The object read back from a row that a save has written.\<close>

definition saved_object ::
  "int \<Rightarrow> string option \<Rightarrow> string option \<Rightarrow> profile_data \<Rightarrow> profile_object" where
  "saved_object i created updated profileData =
     \<lparr>id' = i, name = name profileData, age = age profileData, phone = phone profileData,
      email = email profileData, relationship = relationship profileData,
      job = job profileData, notes' = notes' profileData,
      tags = list_value (tags profileData), photoUri = photoUri profileData,
      parents = list_value (parents profileData), kids = list_value (kids profileData),
      brothers = list_value (brothers profileData), sisters = list_value (sisters profileData),
      siblings = list_value (siblings profileData), pets = list_value (pets profileData),
      foodLikes = list_value (foodLikes profileData),
      foodDislikes = list_value (foodDislikes profileData),
      interests = list_value (interests profileData), instagram = instagram profileData,
      snapchat = snapchat profileData, twitter = twitter profileData,
      tiktok = tiktok profileData, facebook = facebook profileData,
      birthday = birthday profileData, lastContactDate = lastContactDate profileData,
      createdAt = created, updatedAt = updated\<rparr>"

text \<open>The one row the join yields for a reminder when profile identifiers are unique.\<close>

definition joined :: "profile_row list \<Rightarrow> reminder_row \<Rightarrow> reminder_object" where
  "joined ps r =
     (case find (\<lambda>p. r_profileId r = Some (id' p)) ps of
        None \<Rightarrow> reminder_row.extend r (reminder_object.fields None None)
      | Some p \<Rightarrow> reminder_row.extend r (reminder_object.fields (name p) (photoUri p)))"

subsection \<open>The time a text denotes\<close>

text \<open>
  \<^verbatim>\<open>scheduledFor\<close> is stored as text. \<open>Date_parse\<close> is the instant, in milliseconds since
  the epoch, that \<^verbatim>\<open>new Date(text)\<close> gives for the ISO 8601 form
  \<^verbatim>\<open>YYYY-MM-DDTHH:mm:ss\<close>, with optional \<^verbatim>\<open>.sss\<close>, followed by \<^verbatim>\<open>Z\<close> or an offset
  \<^verbatim>\<open>+HH:mm\<close> or \<^verbatim>\<open>-HH:mm\<close>; \<open>None\<close> for a text not of that form. The day count is
  that of the proleptic Gregorian calendar.
\<close>

definition digit_val :: "char \<Rightarrow> nat option" where
  "digit_val c =
     (if 48 \<le> (of_char c :: nat) \<and> (of_char c :: nat) \<le> 57 then Some (of_char c - 48) else None)"

fun digits_val :: "nat \<Rightarrow> string \<Rightarrow> nat option" where
  "digits_val acc [] = Some acc"
| "digits_val acc (c # cs) =
     (case digit_val c of None \<Rightarrow> None | Some d \<Rightarrow> digits_val (acc * 10 + d) cs)"

definition number :: "string \<Rightarrow> nat option" where
  "number s = (if s = [] then None else digits_val 0 s)"

definition days_from_civil :: "int \<Rightarrow> int \<Rightarrow> int \<Rightarrow> int" where
  "days_from_civil y m d =
     (let y' = (if m \<le> 2 then y - 1 else y);
          era = y' div 400;
          yoe = y' - era * 400;
          mp = (if m > 2 then m - 3 else m + 9);
          doy = (153 * mp + 2) div 5 + d - 1;
          doe = yoe * 365 + yoe div 4 - yoe div 100 + doy
      in era * 146097 + doe - 719468)"

definition time_zone :: "string \<Rightarrow> int option" where
  "time_zone z =
     (if z = ''Z'' then Some 0
      else
        (case z of
           [sg, h1, h2, c, m1, m2] \<Rightarrow>
             (if c = CHR '':'' \<and> (sg = CHR ''+'' \<or> sg = CHR ''-'') then
                (case (number [h1, h2], number [m1, m2]) of
                   (Some h, Some m) \<Rightarrow>
                     Some ((if sg = CHR ''+'' then 1 else - 1) * int (h * 60 + m))
                 | _ \<Rightarrow> None)
              else None)
         | _ \<Rightarrow> None))"

definition Date_parse :: "string \<Rightarrow> int option" where
  "Date_parse s =
     (let rest = drop 19 s;
          fraction = (if take 1 rest = ''.'' then take 3 (drop 1 rest) else ''000'');
          zone = (if take 1 rest = ''.'' then drop 4 rest else rest)
      in if take 1 (drop 4 s) = ''-'' \<and> take 1 (drop 7 s) = ''-'' \<and> take 1 (drop 10 s) = ''T''
            \<and> take 1 (drop 13 s) = '':'' \<and> take 1 (drop 16 s) = '':'' \<and> length fraction = 3
         then
           (case (number (take 4 s), number (take 2 (drop 5 s)), number (take 2 (drop 8 s)),
                  number (take 2 (drop 11 s)), number (take 2 (drop 14 s)),
                  number (take 2 (drop 17 s)), number fraction, time_zone zone) of
              (Some y, Some mo, Some d, Some h, Some mi, Some sec, Some ms, Some offset) \<Rightarrow>
                if 1 \<le> mo \<and> mo \<le> 12 \<and> 1 \<le> d \<and> d \<le> 31 \<and> h \<le> 23 \<and> mi \<le> 59 \<and> sec \<le> 59
                then Some ((((days_from_civil (int y) (int mo) (int d) * 24 + int h) * 60
                              + int mi - offset) * 60 + int sec) * 1000 + int ms)
                else None
            | _ \<Rightarrow> None)
         else None)"

subsection \<open>Sample data\<close>

text \<open>A device on which every call succeeds, and a reminder.\<close>

definition sample_env :: notification_env where
  "sample_env =
     \<lparr>Platform_OS = Android,
      getPermissionsAsync = Inr Undetermined,
      requestPermissionsAsync = Inr Granted,
      setNotificationChannelAsync = Inr (),
      scheduleNotificationAsync = Inr ''n-1'',
      getAllScheduledNotificationsAsync = Inr ()\<rparr>"

definition sample_reminder :: "int \<Rightarrow> reminder_arg" where
  "sample_reminder t =
     \<lparr>arg_id = 7,
      arg_title = ''Call Ana'',
      arg_description = None,
      arg_scheduledFor = t,
      arg_profileName = Some ''Ana''\<rparr>"

definition empty_database :: database where
  "empty_database =
     \<lparr>profiles = [], profiles_seq = 0, interactions = [], reminders = [], life_events = [],
      feedback = []\<rparr>"

definition signed_in :: remote_env where
  "signed_in =
     \<lparr>AuthService_getSession = Inr (Some \<lparr>user_id = Some ''user-1''\<rparr>),
      AuthService_init = Inr (),
      AuthService_supabase = Some (Inr None)\<rparr>"

definition ana :: profile_data where
  "ana =
     \<lparr>id' = None, name = Some ''Ana'', age = Some 30, phone = Some ''555-0100'', email = None,
      relationship = Some ''friend'', job = None, notes' = None,
      tags = Some (JArray [JObject [(''text'', JString ''vip'')]]), photoUri = None,
      parents = Some (JArray [JString ''Eva'', JString ''Tom'']), kids = Some (JArray []),
      brothers = None,
      sisters = None, siblings = None, pets = None, foodLikes = None, foodDislikes = None,
      interests = None, instagram = None, snapchat = None, twitter = None, tiktok = None,
      facebook = None, birthday = None, lastContactDate = None, createdAt = None,
      updatedAt = None\<rparr>"

text \<open>A database that holds Ana as profile 1, a reminder and an interaction for her, and
  a reminder for nobody.\<close>

definition ana_database :: database where
  "ana_database =
     \<lparr>profiles = [bound_row 1 (Some ''2024-01-01'') (Some ''2024-01-01'') ana],
      profiles_seq = 1,
      interactions =
        [\<lparr>i_id = 1, i_profileId = Some 1, i_description = ''lunch'', i_extractedData = None,
          i_type = Some ''conversation'', i_location = None, i_createdAt = None\<rparr>],
      reminders =
        [\<lparr>r_id = 1, r_profileId = None, r_title = ''taxes'', r_description = None,
          r_type = Some ''general'', r_scheduledFor = ''2024-03-01'', r_completed = Some 0,
          r_completedAt = None, r_notificationId = None, r_createdAt = None\<rparr>,
         \<lparr>r_id = 2, r_profileId = Some 1, r_title = ''call Ana'', r_description = None,
          r_type = Some ''general'', r_scheduledFor = ''2024-02-01'', r_completed = Some 0,
          r_completedAt = None, r_notificationId = None, r_createdAt = None\<rparr>],
      life_events = [],
      feedback =
        [\<lparr>f_id = 1, f_type = ''bug'', f_subject = ''crash'', f_message = ''it crashed'',
          f_userEmail = None, f_deviceInfo = None, f_appVersion = None,
          f_status = Some ''open'', f_createdAt = None\<rparr>]\<rparr>"


text \<open>A backend whose every call raises.\<close>

definition offline :: remote_env where
  "offline =
     \<lparr>AuthService_getSession = Inl (Error ''Network request failed''),
      AuthService_init = Inl (Error ''Network request failed''),
      AuthService_supabase = Some (Inl (Error ''Network request failed''))\<rparr>"

text \<open>Ana again, renamed and with her lists left out; and a second profile.\<close>

definition ana_renamed :: profile_data where
  "ana_renamed = ana\<lparr>id' := Some 1, name := Some ''Ana Maria'', tags := None, parents := None\<rparr>"

definition two_profiles :: database where
  "two_profiles =
     ana_database\<lparr>profiles :=
       [bound_row 1 (Some ''2024-01-01'') (Some ''2024-01-01'') ana,
        bound_row 2 (Some ''2024-01-02'') (Some ''2024-01-02'') (ana\<lparr>name := Some ''Bob''\<rparr>)],
       profiles_seq := 2\<rparr>"

text \<open>
  A row written before the columns \<^verbatim>\<open>parents\<close>, \<^verbatim>\<open>brothers\<close> and \<^verbatim>\<open>sisters\<close> were added:
  they are \<^verbatim>\<open>NULL\<close> in it.
\<close>

definition legacy_row :: profile_row where
  "legacy_row =
     (bound_row 1 (Some ''2023-01-01'') (Some ''2023-01-01'') ana)
       \<lparr>parents := None, brothers := None, sisters := None\<rparr>"

definition legacy_database :: database where
  "legacy_database = empty_database\<lparr>profiles := [legacy_row], profiles_seq := 1\<rparr>"






text \<open>
  Two reminders whose times are written with different offsets: the first is due at
  05:00 UTC, the second at 06:00 UTC.
\<close>

definition offset_reminders :: database where
  "offset_reminders =
     empty_database\<lparr>reminders :=
       [\<lparr>r_id = 1, r_profileId = None, r_title = ''first'', r_description = None,
         r_type = Some ''general'', r_scheduledFor = ''2024-02-01T10:00:00+05:00'',
         r_completed = Some 0, r_completedAt = None, r_notificationId = None,
         r_createdAt = None\<rparr>,
        \<lparr>r_id = 2, r_profileId = None, r_title = ''second'', r_description = None,
         r_type = Some ''general'', r_scheduledFor = ''2024-02-01T06:00:00Z'',
         r_completed = Some 0, r_completedAt = None, r_notificationId = None,
         r_createdAt = None\<rparr>]\<rparr>"

chapter \<open>Properties\<close>

section \<open>JSON text round trip\<close>

lemma hex_val_hex_digit: "d < 16 \<Longrightarrow> hex_val (hex_digit d) = Some d"
  by (simp add: hex_val_def hex_digit_def)

lemma unescape_control:
  assumes "(of_char c :: nat) < 32"
  shows "unescape (CHR ''u'' # CHR ''0'' # CHR ''0'' # hex_digit (of_char c div 16) # hex_digit (of_char c mod 16) # t) = Some (c, t)"
proof -
  let ?n = "of_char c :: nat"
  have a: "hex_val (hex_digit (?n div 16)) = Some (?n div 16)"
    using assms by (intro hex_val_hex_digit) simp
  have b: "hex_val (hex_digit (?n mod 16)) = Some (?n mod 16)"
    by (intro hex_val_hex_digit) simp
  have z: "hex_val CHR ''0'' = Some 0" by (simp add: hex_val_def)
  have "?n div 16 * 16 + ?n mod 16 = ?n" by simp
  then show ?thesis using assms
    by (simp add: a b z Let_def)
qed

lemma parse_chars_escape:
  "parse_chars (escape_char c @ t) =
     (case parse_chars t of None \<Rightarrow> None | Some (str, r) \<Rightarrow> Some (c # str, r))"
proof -
  consider (q) "c = CHR 0x22" | (b) "c = CHR 0x5C"
    | (s) "c \<in> {CHR 0x08, CHR 0x0C, CHR 0x0A, CHR 0x0D, CHR 0x09}"
    | (u) "c \<notin> {CHR 0x22, CHR 0x5C, CHR 0x08, CHR 0x0C, CHR 0x0A, CHR 0x0D, CHR 0x09}" "(of_char c :: nat) < 32"
    | (p) "c \<notin> {CHR 0x22, CHR 0x5C}" "\<not> (of_char c :: nat) < 32"
    by auto
  then show ?thesis
  proof cases
    case q then show ?thesis by (simp split: option.splits)
  next
    case b then show ?thesis by (simp split: option.splits)
  next
    case s then show ?thesis by (auto split: option.splits)
  next
    case u then show ?thesis by (simp add: unescape_control split: option.splits del: unescape.simps)
  next
    case p
    then have "escape_char c = [c]" by auto
    with p show ?thesis by (simp split: option.splits)
  qed
qed

lemma parse_chars_quote:
  "parse_chars (concat (map escape_char s) @ CHR 0x22 # rest) = Some (s, rest)"
  by (induction s) (simp_all add: parse_chars_escape del: escape_char.simps)


lemma stringify_first:
  "\<exists>c cs. stringify v = c # cs \<and> c \<noteq> CHR '']'' \<and> c \<noteq> CHR ''}''"
  by (cases v) auto

lemma parse_roundtrip_aux:
  "length (stringify v) \<le> n \<Longrightarrow> parse_value n (stringify v @ rest) = Some (v, rest)"
  "xs \<noteq> [] \<Longrightarrow> length (stringify_elements xs) \<le> n \<Longrightarrow>
     parse_elements n (stringify_elements xs @ rest) = Some (xs, rest)"
  "kvs \<noteq> [] \<Longrightarrow> length (stringify_members kvs) \<le> n \<Longrightarrow>
     parse_members n (stringify_members kvs @ rest) = Some (kvs, rest)"
proof (induction v and xs and kvs arbitrary: n rest and n rest and n rest
       rule: stringify_stringify_elements_stringify_members.induct)
  case 1
  then show ?case by (cases n) auto
next
  case (2 b)
  then show ?case by (cases n; cases b) auto
next
  case (3 s)
  then show ?case by (cases n) (auto simp: parse_chars_quote simp del: escape_char.simps)
next
  case (4 xs)
  show ?case
  proof (cases xs)
    case Nil
    with 4 show ?thesis by (cases n) auto
  next
    case (Cons y ys)
    obtain m where n: "n = Suc m" using 4(2) by (cases n) auto
    obtain c cs where c: "stringify y = c # cs" "c \<noteq> CHR '']''"
      using stringify_first by blast
    have "stringify_elements xs = c # tl (stringify_elements xs)" "stringify_elements xs \<noteq> []"
      using Cons c by (cases ys; simp)+
    moreover have "parse_elements m (stringify_elements xs @ rest) = Some (xs, rest)"
      using 4 Cons n by simp
    ultimately show ?thesis using n c
      by (cases "stringify_elements xs") auto
  qed
next
  case (5 kvs)
  show ?case
  proof (cases kvs)
    case Nil
    with 5 show ?thesis by (cases n) auto
  next
    case (Cons y ys)
    obtain m where n: "n = Suc m" using 5(2) by (cases n) auto
    obtain cs where c: "stringify_members kvs = CHR 0x22 # cs"
      using Cons by (cases y; cases ys; simp)
    moreover have "parse_members m (stringify_members kvs @ rest) = Some (kvs, rest)"
      using 5 Cons n by simp
    ultimately show ?thesis using n by auto
  qed
next
  case 6
  then show ?case by simp
next
  case (7 x)
  obtain m where n: "n = Suc m" using 7(3) by (cases n) auto
  have "parse_value m (stringify x @ CHR '']'' # rest) = Some (x, CHR '']'' # rest)"
    using 7 n by simp
  then show ?case using n by simp
next
  case (8 x y ys)
  obtain m where n: "n = Suc m" using 8(4) by (cases n) auto
  have "parse_value m (stringify x @ CHR '','' # stringify_elements (y # ys) @ rest)
          = Some (x, CHR '','' # stringify_elements (y # ys) @ rest)"
    using 8 n by simp
  moreover have "parse_elements m (stringify_elements (y # ys) @ rest) = Some (y # ys, rest)"
    using 8 n by simp
  ultimately show ?case using n by simp
next
  case 9
  then show ?case by simp
next
  case (10 k v)
  obtain m where n: "n = Suc m" using 10(3) by (cases n) auto
  have "parse_value m (stringify v @ CHR ''}'' # rest) = Some (v, CHR ''}'' # rest)"
    using 10 n by simp
  then show ?case using n by (simp add: parse_chars_quote del: escape_char.simps)
next
  case (11 k v m' ms)
  obtain m where n: "n = Suc m" using 11(4) by (cases n) auto
  have "parse_value m (stringify v @ CHR '','' # stringify_members (m' # ms) @ rest)
          = Some (v, CHR '','' # stringify_members (m' # ms) @ rest)"
    using 11 n by simp
  moreover have "parse_members m (stringify_members (m' # ms) @ rest) = Some (m' # ms, rest)"
    using 11 n by simp
  ultimately show ?case using n by (simp add: parse_chars_quote del: escape_char.simps)
qed

lemma JSON_parse_stringify: "JSON_parse (stringify v) = Inr v"
  using parse_roundtrip_aux(1)[of v "length (stringify v)" "[]"]
  by (simp add: JSON_parse_def)


section \<open>Scheduling a reminder notification\<close>





text \<open>
  C4: whenever a request reaches the notification centre, its trigger is the current
  time plus 5000 ms for a reminder less than 5000 ms ahead, and the reminder's own time
  for one at least 5000 ms ahead.
\<close>

theorem trigger_time_buffer:
  assumes "scheduleReminderNotification env now reminder (svc, os) = (res, reminder', svc', os')"
    and "isInitialized svc \<or> fst (init env svc) = Some True"
    and "scheduleNotificationAsync env = Inr nid"
    and "now < arg_scheduledFor reminder"
  shows "\<exists>req. os' = os @ [req] \<and> request_identifier req = nid
           \<and> trigger_date (request_trigger req) =
               (if arg_scheduledFor reminder < now + 5000 then now + 5000
                else arg_scheduledFor reminder)
           \<and> arg_scheduledFor reminder' = trigger_date (request_trigger req)"
  using assms
  by (auto simp: scheduleReminderNotification_def Let_def minimumBufferMs_def
      split: if_splits sum.splits prod.splits)

theorem trigger_time_buffer_witness:
  "(\<exists>req. snd (snd (snd (scheduleReminderNotification sample_env 1000 (sample_reminder 3000)
        (\<lparr>isInitialized = False\<rparr>, [])))) = [] @ [req] \<and> request_identifier req = ''n-1''
        \<and> trigger_date (request_trigger req) = 6000)
   \<and> (\<exists>req. snd (snd (snd (scheduleReminderNotification sample_env 1000 (sample_reminder 9000)
        (\<lparr>isInitialized = False\<rparr>, [])))) = [] @ [req] \<and> request_identifier req = ''n-1''
        \<and> trigger_date (request_trigger req) = 9000)"
proof -
  let ?req = "\<lambda>t. \<lparr>request_identifier = ''n-1'',
           request_content = \<lparr>content_title = ''Call Ana'', content_body = ''Reminder about Ana'',
                      data_reminderId = 7, data_type = ''reminder'', content_sound = True,
                      content_priority = ''high''\<rparr>,
           request_trigger = \<lparr>trigger_date = t, trigger_channelId = Some ''reminders''\<rparr>\<rparr>"
  have i: "isInitialized \<lparr>isInitialized = False\<rparr>
             \<or> fst (init sample_env \<lparr>isInitialized = False\<rparr>) = Some True"
    by (simp add: init_def sample_env_def)
  have s: "scheduleNotificationAsync sample_env = Inr ''n-1''"
    by (simp add: sample_env_def)
  have a: "(1000 :: int) < arg_scheduledFor (sample_reminder 3000)"
    and b: "(1000 :: int) < arg_scheduledFor (sample_reminder 9000)"
    by (simp_all add: sample_reminder_def)
  have ra: "scheduleReminderNotification sample_env 1000 (sample_reminder 3000)
              (\<lparr>isInitialized = False\<rparr>, [])
            = (Inr (Some ''n-1''), sample_reminder 6000, \<lparr>isInitialized = True\<rparr>, [?req 6000])"
    by (simp add: scheduleReminderNotification_def init_def sample_env_def
        sample_reminder_def minimumBufferMs_def notification_body_def)
  have rb: "scheduleReminderNotification sample_env 1000 (sample_reminder 9000)
              (\<lparr>isInitialized = False\<rparr>, [])
            = (Inr (Some ''n-1''), sample_reminder 9000, \<lparr>isInitialized = True\<rparr>, [?req 9000])"
    by (simp add: scheduleReminderNotification_def init_def sample_env_def
        sample_reminder_def minimumBufferMs_def notification_body_def)
  from trigger_time_buffer[OF ra i s a] trigger_time_buffer[OF rb i s b] show ?thesis
    by (simp add: ra rb)
qed

section \<open>Saving and reading a profile\<close>

lemma stringify_not_empty: "stringify v \<noteq> []"
  using stringify_first[of v] by auto

lemma read_list_text:
  "read_list (list_text l) = Inr (case l of None \<Rightarrow> JArray [] | Some v \<Rightarrow> v)"
  unfolding read_list_def list_text_def
  by (simp only: option.case stringify_not_empty if_False JSON_parse_stringify)

lemma stored_list_text: "array_or_absent l \<Longrightarrow> stored_list (list_text l)"
  by (auto simp: stored_list_def list_text_def array_or_absent_def JSON_parse_stringify
      split: option.splits json.splits)

lemma read_list_stored:
  "stored_list column \<Longrightarrow> \<exists>xs. read_list column = Inr (JArray xs) \<and> read_as column (Some (JArray xs))"
  by (auto simp: stored_list_def read_list_def read_as_def stringify_not_empty
      split: option.splits sum.splits json.splits)

lemma parse_lists_bound_row:
  "parse_lists (bound_row i c u pd) = Inr (saved_object i c u pd)"
  by (simp add: parse_lists_def bound_row_def saved_object_def read_list_text and_then_def
      list_value_def)

lemma fold_max_ge: "s \<le> fold max xs (s :: int)"
  by (induction xs arbitrary: s) (auto intro: order_trans[OF max.cobounded2])

lemma fold_max_member: "x \<in> set xs \<Longrightarrow> x \<le> fold max xs (s :: int)"
proof (induction xs arbitrary: s)
  case Nil
  then show ?case by simp
next
  case (Cons y ys)
  show ?case
  proof (cases "x = y")
    case True
    have "y \<le> max y s" by simp
    also have "\<dots> \<le> fold max ys (max y s)" by (rule fold_max_ge)
    finally show ?thesis using True by simp
  next
    case False
    with Cons show ?thesis by simp
  qed
qed

lemma find_fresh_id:
  assumes "\<forall>row \<in> set rows. id' row \<noteq> i" and "id' new = i"
  shows "find (\<lambda>row. id' row = i) (rows @ [new]) = Some new"
  using assms by (induction rows) auto


lemma id_bound_row: "id' (bound_row i c u pd) = i"
  by (simp add: bound_row_def)

lemma get_after_insert:
  assumes "INSERT_INTO_profiles pd now d = Inr (i, d')"
  shows "getProfileById i \<lparr>db = Some d', isWebFallback = False\<rparr>
           = Inr (Some (saved_object i (Some now) (Some now) pd))"
proof -
  let ?n = "fold max (map id' (profiles d)) (profiles_seq d) + 1"
  from assms have i: "i = ?n"
    and d': "profiles d' = profiles d @ [bound_row i (Some now) (Some now) pd]"
    by (auto simp: INSERT_INTO_profiles_def Let_def split: if_splits)
  have "\<forall>row \<in> set (profiles d). id' row \<noteq> i"
  proof
    fix row assume "row \<in> set (profiles d)"
    then have "id' row \<in> set (map id' (profiles d))" by simp
    then have "id' row \<le> fold max (map id' (profiles d)) (profiles_seq d)"
      by (rule fold_max_member)
    then show "id' row \<noteq> i" using i by simp
  qed
  then have "find (\<lambda>row. id' row = i) (profiles d') = Some (bound_row i (Some now) (Some now) pd)"
    unfolding d' by (rule find_fresh_id) (rule id_bound_row)
  then show ?thesis
    by (simp add: getProfileById_def parse_lists_bound_row and_then_def)
qed


lemma render_error_plain: "\<not> circular e \<Longrightarrow> render_error e = Inr ()"
  by (cases e) (simp_all add: render_error_def circular_def)

lemma render_error_result:
  "render_error e = Inr () \<or> render_error e = Inl (TypeError ''Converting circular structure to JSON'')"
  by (cases e) (simp_all add: render_error_def)

lemma collection_attempt_raises:
  assumes "collection_attempt env pd operation pid = Inl e"
  shows "e \<in> set (raised env) \<or> e = TypeError ''Converting circular structure to JSON''"
proof -
  have r: "\<And>x. render_error x = Inl e \<Longrightarrow> e = TypeError ''Converting circular structure to JSON''"
    using render_error_result by (metis Inl_Inr_False sum.inject(1))
  from assms show ?thesis
    by (auto simp: collection_attempt_def and_then_def raised_def dest: r
        split: sum.splits option.splits list.splits)
qed

lemma log_returns:
  assumes "\<forall>e \<in> set (raised env). \<not> circular e"
  shows "logProfileDataForCollection env pd operation pid = Inr ()"
proof (cases "collection_attempt env pd operation pid")
  case (Inl e)
  from collection_attempt_raises[OF Inl] assms have "\<not> circular e"
    by (auto simp: circular_def)
  with Inl show ?thesis
    by (simp add: logProfileDataForCollection_def render_error_plain)
next
  case (Inr u)
  then show ?thesis by (simp add: logProfileDataForCollection_def)
qed

lemma log_result:
  "logProfileDataForCollection env pd operation pid = Inr ()
   \<or> logProfileDataForCollection env pd operation pid
       = Inl (TypeError ''Converting circular structure to JSON'')"
  using render_error_result
  by (auto simp: logProfileDataForCollection_def split: sum.splits)

lemma log_signed_in: "logProfileDataForCollection signed_in pd operation pid = Inr ()"
  by (rule log_returns) (simp add: raised_def signed_in_def)



text \<open>What a save does to the table, on each path, whatever the remote calls do.\<close>

lemma save_create:
  assumes "\<not> isWebFallback svc" and "db svc = Some d"
    and "id' pd = None \<or> id' pd = Some 0" and "name pd \<noteq> None"
    and "i = fold max (map id' (profiles d)) (profiles_seq d) + 1"
  shows "createOrUpdateProfile env now rnd pd svc
           = ((case logProfileDataForCollection env pd Create (Some i) of
                 Inl e \<Rightarrow> Inl e | Inr u \<Rightarrow> Inr i),
              svc\<lparr>db := Some (d\<lparr>profiles := profiles d @ [bound_row i (Some now) (Some now) pd],
                              profiles_seq := i\<rparr>)\<rparr>)"
  using assms
  by (auto simp: createOrUpdateProfile_def INSERT_INTO_profiles_def Let_def
      split: sum.splits)

lemma save_update:
  assumes "\<not> isWebFallback svc" and "db svc = Some d"
    and "id' pd = Some i" and "i \<noteq> 0"
    and "name pd \<noteq> None \<or> find (\<lambda>row. id' row = i) (profiles d) = None"
  shows "createOrUpdateProfile env now rnd pd svc
           = ((case logProfileDataForCollection env pd Update (Some i) of
                 Inl e \<Rightarrow> Inl e | Inr u \<Rightarrow> Inr i),
              svc\<lparr>db := Some (d\<lparr>profiles :=
                   map (\<lambda>row. if id' row = i
                               then bound_row i (createdAt row) (Some now) pd else row)
                     (profiles d)\<rparr>)\<rparr>)"
  using assms
  by (auto simp: createOrUpdateProfile_def UPDATE_profiles_def split: sum.splits)

lemma bound_row_fields:
  "id' (bound_row i c u pd) = i"
  "age (bound_row i c u pd) = age pd"
  "text_fields (bound_row i c u pd) = text_fields pd"
  "list_fields (bound_row i c u pd)
     = map (\<lambda>l. Some (stringify (case l of None \<Rightarrow> JArray [] | Some v \<Rightarrow> v))) (list_fields pd)"
  "createdAt (bound_row i c u pd) = c"
  "updatedAt (bound_row i c u pd) = u"
  by (simp_all add: bound_row_def text_fields_def list_fields_def list_text_def)




section \<open>Deleting a profile\<close>

text \<open>
  C2, as stated, fails: in web-fallback mode \<^verbatim>\<open>deleteProfile\<close> returns at once, and the
  mock profile 1 is still there afterwards.
\<close>

theorem delete_in_web_fallback_keeps_profile:
  "deleteProfile 1 \<lparr>db = None, isWebFallback = True\<rparr>
     = (Inr (), \<lparr>db = None, isWebFallback = True\<rparr>)
   \<and> getProfileById 1 \<lparr>db = None, isWebFallback = True\<rparr> = Inr (Some (hd mock_profiles))
   \<and> getProfileById 1 \<lparr>db = None, isWebFallback = True\<rparr> \<noteq> Inr None"
  by (simp add: deleteProfile_def getProfileById_def getAllProfiles_def mock_profiles_def)

text \<open>
  C2, amended: outside web-fallback mode, for every profile identifier,
  \<^verbatim>\<open>deleteProfile\<close> removes the profile row and every reminder, interaction and life event
  of that profile; afterwards \<^verbatim>\<open>getProfileById\<close> returns \<^verbatim>\<open>null\<close>, no dependent record
  remains, and feedback and the records of other profiles are as they were.
\<close>

theorem delete_profile_cascades:
  assumes "\<not> isWebFallback svc" and "db svc = Some d"
  shows "\<exists>d'. deleteProfile i svc = (Inr (), svc\<lparr>db := Some d'\<rparr>)
           \<and> getProfileById i (svc\<lparr>db := Some d'\<rparr>) = Inr None
           \<and> (\<forall>r \<in> set (reminders d'). r_profileId r \<noteq> Some i)
           \<and> (\<forall>x \<in> set (interactions d'). i_profileId x \<noteq> Some i)
           \<and> (\<forall>e \<in> set (life_events d'). e_profileId e \<noteq> Some i)
           \<and> profiles d' = filter (\<lambda>p. id' p \<noteq> i) (profiles d)
           \<and> reminders d' = filter (\<lambda>r. r_profileId r \<noteq> Some i) (reminders d)
           \<and> interactions d' = filter (\<lambda>x. i_profileId x \<noteq> Some i) (interactions d)
           \<and> life_events d' = filter (\<lambda>e. e_profileId e \<noteq> Some i) (life_events d)
           \<and> feedback d' = feedback d
           \<and> profiles_seq d' = profiles_seq d"
proof -
  have "find (\<lambda>row. id' row = i) (filter (\<lambda>p. id' p \<noteq> i) (profiles d)) = None"
    by (simp add: find_None_iff)
  with assms show ?thesis
    by (intro exI[where x = "d\<lparr>reminders := filter (\<lambda>r. r_profileId r \<noteq> Some i) (reminders d),
                               interactions := filter (\<lambda>x. i_profileId x \<noteq> Some i) (interactions d),
                               life_events := filter (\<lambda>e. e_profileId e \<noteq> Some i) (life_events d),
                               profiles := filter (\<lambda>p. id' p \<noteq> i) (profiles d)\<rparr>"])
       (simp add: deleteProfile_def getProfileById_def Let_def)
qed

theorem delete_profile_cascades_witness:
  "\<exists>d'. deleteProfile 1 \<lparr>db = Some ana_database, isWebFallback = False\<rparr>
           = (Inr (), \<lparr>db = Some d', isWebFallback = False\<rparr>)
         \<and> getProfileById 1 \<lparr>db = Some d', isWebFallback = False\<rparr> = Inr None
         \<and> profiles d' = []
         \<and> map r_id (reminders d') = [1]
         \<and> interactions d' = []
         \<and> feedback d' = feedback ana_database"
proof -
  let ?svc = "\<lparr>db = Some ana_database, isWebFallback = False\<rparr>"
  have a: "\<not> isWebFallback ?svc" and b: "db ?svc = Some ana_database" by simp_all
  from delete_profile_cascades[OF a b, of 1] show ?thesis
    by (auto simp: ana_database_def id_bound_row)
qed

section \<open>Remote collection and the local save\<close>






section \<open>Web-fallback mode\<close>




section \<open>List-valued fields at rest and in memory\<close>

lemma read_as_is_array: "read_as column v \<Longrightarrow> is_array v"
  by (auto simp: read_as_def is_array_def split: option.splits json.splits)

lemma read_as_all_arrays: "list_all2 read_as columns vs \<Longrightarrow> list_all is_array vs"
  by (induction rule: list_all2_induct) (auto intro: read_as_is_array)

lemma parse_lists_stored:
  assumes "list_all stored_list (list_fields row)"
  shows "\<exists>p. parse_lists row = Inr p \<and> id' p = id' row
           \<and> list_all2 read_as (list_fields row) (list_fields p)"
proof -
  from assms have s: "stored_list (tags row)" "stored_list (parents row)"
    "stored_list (kids row)" "stored_list (brothers row)" "stored_list (sisters row)"
    "stored_list (siblings row)" "stored_list (pets row)" "stored_list (foodLikes row)"
    "stored_list (foodDislikes row)" "stored_list (interests row)"
    by (simp_all add: list_fields_def)
  from read_list_stored[OF s(1)] obtain x1 where
    x1: "read_list (tags row) = Inr (JArray x1)" "read_as (tags row) (Some (JArray x1))" by blast
  from read_list_stored[OF s(2)] obtain x2 where
    x2: "read_list (parents row) = Inr (JArray x2)" "read_as (parents row) (Some (JArray x2))" by blast
  from read_list_stored[OF s(3)] obtain x3 where
    x3: "read_list (kids row) = Inr (JArray x3)" "read_as (kids row) (Some (JArray x3))" by blast
  from read_list_stored[OF s(4)] obtain x4 where
    x4: "read_list (brothers row) = Inr (JArray x4)" "read_as (brothers row) (Some (JArray x4))" by blast
  from read_list_stored[OF s(5)] obtain x5 where
    x5: "read_list (sisters row) = Inr (JArray x5)" "read_as (sisters row) (Some (JArray x5))" by blast
  from read_list_stored[OF s(6)] obtain x6 where
    x6: "read_list (siblings row) = Inr (JArray x6)" "read_as (siblings row) (Some (JArray x6))" by blast
  from read_list_stored[OF s(7)] obtain x7 where
    x7: "read_list (pets row) = Inr (JArray x7)" "read_as (pets row) (Some (JArray x7))" by blast
  from read_list_stored[OF s(8)] obtain x8 where
    x8: "read_list (foodLikes row) = Inr (JArray x8)" "read_as (foodLikes row) (Some (JArray x8))" by blast
  from read_list_stored[OF s(9)] obtain x9 where
    x9: "read_list (foodDislikes row) = Inr (JArray x9)" "read_as (foodDislikes row) (Some (JArray x9))" by blast
  from read_list_stored[OF s(10)] obtain x10 where
    x10: "read_list (interests row) = Inr (JArray x10)" "read_as (interests row) (Some (JArray x10))" by blast
  show ?thesis
    by (simp add: parse_lists_def and_then_def list_fields_def x1 x2 x3 x4 x5 x6 x7 x8 x9 x10)
qed

lemma collect_all:
  assumes "\<forall>x \<in> set xs. \<exists>y. f x = Inr y \<and> P x y"
  shows "\<exists>ys. collect (map f xs) = Inr ys \<and> (\<forall>y \<in> set ys. \<exists>x \<in> set xs. P x y)"
  using assms
proof (induction xs)
  case Nil
  then show ?case by simp
next
  case (Cons x xs)
  then obtain y where y: "f x = Inr y" "P x y" by auto
  from Cons obtain ys where ys: "collect (map f xs) = Inr ys" "\<forall>y \<in> set ys. \<exists>x \<in> set xs. P x y"
    by auto
  show ?case using y ys by auto
qed

lemma bound_row_stored:
  "list_all array_or_absent (list_fields pd) \<Longrightarrow>
     list_all stored_list (list_fields (bound_row i c u pd))"
  by (simp add: list_fields_def bound_row_def stored_list_text)

lemma lists_at_rest_insert:
  "lists_at_rest d \<Longrightarrow> list_all array_or_absent (list_fields pd) \<Longrightarrow>
     INSERT_INTO_profiles pd now d = Inr (i, d') \<Longrightarrow> lists_at_rest d'"
  by (auto simp: lists_at_rest_def INSERT_INTO_profiles_def Let_def bound_row_stored
      list_all_iff[where P = "\<lambda>row. list_all stored_list (list_fields row)"]
      split: if_splits)

lemma lists_at_rest_update:
  "lists_at_rest d \<Longrightarrow> list_all array_or_absent (list_fields pd) \<Longrightarrow>
     UPDATE_profiles i pd now d = Inr d' \<Longrightarrow> lists_at_rest d'"
  by (auto simp: lists_at_rest_def UPDATE_profiles_def bound_row_stored
      list_all_iff[where P = "\<lambda>row. list_all stored_list (list_fields row)"]
      split: if_splits)

lemma lists_at_rest_save:
  assumes "lists_at_rest d" and "db svc = Some d"
    and "list_all array_or_absent (list_fields pd)"
  shows "\<exists>d'. db (snd (createOrUpdateProfile env now rnd pd svc)) = Some d' \<and> lists_at_rest d'"
proof (cases "isWebFallback svc")
  case True
  with assms show ?thesis
    by (auto simp: createOrUpdateProfile_def Let_def split: sum.splits)
next
  case False
  show ?thesis
  proof (cases "id' pd = None \<or> id' pd = Some 0")
    case True
    show ?thesis
    proof (cases "INSERT_INTO_profiles pd now d")
      case (Inl e)
      with True False assms show ?thesis
        by (auto simp: createOrUpdateProfile_def)
    next
      case (Inr r)
      obtain i d' where r: "r = (i, d')" by (cases r)
      with Inr assms(1,3) have "lists_at_rest d'" by (auto intro: lists_at_rest_insert)
      with True False assms Inr r show ?thesis
        by (auto simp: createOrUpdateProfile_def split: sum.splits)
    qed
  next
    case c: False
    then obtain j where j: "id' pd = Some j" "j \<noteq> 0" by auto
    show ?thesis
    proof (cases "UPDATE_profiles j pd now d")
      case (Inl e)
      with j False assms show ?thesis
        by (auto simp: createOrUpdateProfile_def)
    next
      case (Inr d')
      with assms(1,3) have "lists_at_rest d'" by (auto intro: lists_at_rest_update)
      with j False assms Inr show ?thesis
        by (auto simp: createOrUpdateProfile_def split: sum.splits)
    qed
  qed
qed

lemma save_create_state:
  assumes "\<not> isWebFallback svc" and "db svc = Some d"
    and "id' pd = None \<or> id' pd = Some 0" and "name pd \<noteq> None"
  shows "\<exists>i. snd (createOrUpdateProfile env now rnd pd svc)
           = svc\<lparr>db := Some (d\<lparr>profiles := profiles d @ [bound_row i (Some now) (Some now) pd],
                           profiles_seq := i\<rparr>)\<rparr>"
  using save_create[OF assms refl, of env now rnd]
  by (intro exI[where x = "fold max (map id' (profiles d)) (profiles_seq d) + 1"]) simp

lemma save_update_state:
  assumes "\<not> isWebFallback svc" and "db svc = Some d"
    and "id' pd = Some i" and "i \<noteq> 0" and "name pd \<noteq> None"
  shows "snd (createOrUpdateProfile env now rnd pd svc)
           = svc\<lparr>db := Some (d\<lparr>profiles :=
                   map (\<lambda>row. if id' row = i
                               then bound_row i (createdAt row) (Some now) pd else row)
                     (profiles d)\<rparr>)\<rparr>"
  using save_update[of svc d pd i env now rnd] assms by simp

text \<open>
  C6, as stated, fails: the destructuring default replaces an absent list only. A save
  with \<^verbatim>\<open>tags: null\<close> stores the JSON text \<^verbatim>\<open>null\<close>, and the profile read back has
  \<^verbatim>\<open>null\<close> for its tags, not an array.
\<close>

theorem null_list_is_read_back_as_null:
  "map_option (\<lambda>d. map tags (profiles d))
     (db (snd (createOrUpdateProfile signed_in ''2024-05-01'' 5 (ana\<lparr>tags := Some JNull\<rparr>)
                 \<lparr>db = Some empty_database, isWebFallback = False\<rparr>)))
     = Some [Some ''null'']
   \<and> map_sum (\<lambda>e. e) (map_option tags)
       (getProfileById 1
          (snd (createOrUpdateProfile signed_in ''2024-05-01'' 5 (ana\<lparr>tags := Some JNull\<rparr>)
                  \<lparr>db = Some empty_database, isWebFallback = False\<rparr>)))
     = Inr (Some (Some JNull))
   \<and> \<not> is_array (Some JNull)"
proof -
  let ?pd = "ana\<lparr>tags := Some JNull\<rparr>"
  let ?svc = "\<lparr>db = Some empty_database, isWebFallback = False\<rparr>"
  let ?d' = "empty_database\<lparr>profiles := profiles empty_database
                               @ [bound_row 1 (Some ''2024-05-01'') (Some ''2024-05-01'') ?pd],
                             profiles_seq := 1\<rparr>"
  have i: "INSERT_INTO_profiles ?pd ''2024-05-01'' empty_database = Inr (1, ?d')"
    by (simp add: INSERT_INTO_profiles_def empty_database_def ana_def Let_def)
  have s: "snd (createOrUpdateProfile signed_in ''2024-05-01'' 5 ?pd ?svc)
             = \<lparr>db = Some ?d', isWebFallback = False\<rparr>"
  proof -
    have n: "id' ?pd = None" by (simp add: ana_def)
    show ?thesis by (simp add: createOrUpdateProfile_def i n log_signed_in)
  qed
  have "map tags (profiles ?d') = [Some ''null'']"
    by (simp add: empty_database_def bound_row_def list_text_def)
  moreover have "getProfileById 1 \<lparr>db = Some ?d', isWebFallback = False\<rparr>
                   = Inr (Some (saved_object 1 (Some ''2024-05-01'') (Some ''2024-05-01'') ?pd))"
    using i by (rule get_after_insert)
  moreover have "tags (saved_object 1 (Some ''2024-05-01'') (Some ''2024-05-01'') ?pd) = Some JNull"
    by (simp add: saved_object_def list_value_def)
  ultimately show ?thesis
    by (simp add: s is_array_def)
qed

text \<open>
  C6, amended: when every list column of the table is \<^verbatim>\<open>NULL\<close> or the text of a
  serialized array, \<^verbatim>\<open>getAllProfiles\<close> and \<^verbatim>\<open>getProfileById\<close> (outside web-fallback
  mode) return profiles whose ten list fields are arrays: the empty array for \<^verbatim>\<open>NULL\<close>,
  the array the text serializes otherwise. \<^verbatim>\<open>createOrUpdateProfile\<close> stores each list
  field as the JSON text of the value given, of the empty array for an absent one, never
  as \<^verbatim>\<open>NULL\<close>; it keeps the property of the table when the list fields of its argument
  are arrays or absent, and the empty table has the property.
\<close>

theorem list_fields_invariant:
  assumes "\<not> isWebFallback svc" and "db svc = Some d" and "lists_at_rest d"
  shows "(\<exists>ps. getAllProfiles svc = Inr ps
            \<and> (\<forall>p \<in> set ps. list_all is_array (list_fields p)
                  \<and> (\<exists>row \<in> set (profiles d). id' p = id' row
                        \<and> list_all2 read_as (list_fields row) (list_fields p))))
       \<and> (case find (\<lambda>row. id' row = i) (profiles d) of
            None \<Rightarrow> getProfileById i svc = Inr None
          | Some row \<Rightarrow>
              (\<exists>p. getProfileById i svc = Inr (Some p)
                 \<and> list_all is_array (list_fields p)
                 \<and> list_all2 read_as (list_fields row) (list_fields p)))
       \<and> (name pd \<noteq> None \<and> (id' pd = None \<or> id' pd = Some 0) \<longrightarrow>
            (\<exists>k row. snd (createOrUpdateProfile env now rnd pd svc)
                        = svc\<lparr>db := Some (d\<lparr>profiles := profiles d @ [row],
                                          profiles_seq := k\<rparr>)\<rparr>
                \<and> list_fields row
                     = map (\<lambda>l. Some (stringify (case l of None \<Rightarrow> JArray [] | Some v \<Rightarrow> v)))
                         (list_fields pd)))
       \<and> (name pd \<noteq> None \<and> id' pd = Some j \<and> j \<noteq> 0 \<longrightarrow>
            (\<exists>d'. snd (createOrUpdateProfile env now rnd pd svc) = svc\<lparr>db := Some d'\<rparr>
                \<and> length (profiles d') = length (profiles d)
                \<and> (\<forall>k < length (profiles d).
                      if id' (profiles d ! k) = j
                      then list_fields (profiles d' ! k)
                             = map (\<lambda>l. Some (stringify (case l of None \<Rightarrow> JArray []
                                                                    | Some v \<Rightarrow> v)))
                                 (list_fields pd)
                      else profiles d' ! k = profiles d ! k)))
       \<and> (list_all array_or_absent (list_fields pd) \<longrightarrow>
            (\<exists>d'. db (snd (createOrUpdateProfile env now rnd pd svc)) = Some d'
                \<and> lists_at_rest d'))
       \<and> lists_at_rest empty_database"
proof (intro conjI impI)
  let ?rows = "rev (sort_key updatedAt (profiles d))"
  have "\<forall>row \<in> set ?rows. \<exists>p. parse_lists row = Inr p
          \<and> (id' p = id' row \<and> list_all2 read_as (list_fields row) (list_fields p))"
    using assms(3) by (auto simp: lists_at_rest_def list_all_iff intro: parse_lists_stored)
  from collect_all[OF this] obtain ps where
    ps: "collect (map parse_lists ?rows) = Inr ps"
      "\<forall>p \<in> set ps. \<exists>row \<in> set ?rows.
          id' p = id' row \<and> list_all2 read_as (list_fields row) (list_fields p)"
    by blast
  have "getAllProfiles svc = Inr ps"
    using assms ps(1) by (simp add: getAllProfiles_def)
  moreover have "\<forall>p \<in> set ps. list_all is_array (list_fields p)
      \<and> (\<exists>row \<in> set (profiles d). id' p = id' row
            \<and> list_all2 read_as (list_fields row) (list_fields p))"
    using ps(2) by (auto dest: read_as_all_arrays)
  ultimately show "\<exists>ps. getAllProfiles svc = Inr ps
            \<and> (\<forall>p \<in> set ps. list_all is_array (list_fields p)
                  \<and> (\<exists>row \<in> set (profiles d). id' p = id' row
                        \<and> list_all2 read_as (list_fields row) (list_fields p)))"
    by blast
next
  show "case find (\<lambda>row. id' row = i) (profiles d) of
            None \<Rightarrow> getProfileById i svc = Inr None
          | Some row \<Rightarrow>
              (\<exists>p. getProfileById i svc = Inr (Some p)
                 \<and> list_all is_array (list_fields p)
                 \<and> list_all2 read_as (list_fields row) (list_fields p))"
  proof (cases "find (\<lambda>row. id' row = i) (profiles d)")
    case None
    with assms show ?thesis by (simp add: getProfileById_def)
  next
    case (Some row)
    then have "row \<in> set (profiles d)"
      by (auto simp: find_Some_iff)
    with assms(3) have "list_all stored_list (list_fields row)"
      by (simp add: lists_at_rest_def list_all_iff)
    from parse_lists_stored[OF this] obtain p where
      "parse_lists row = Inr p" "list_all2 read_as (list_fields row) (list_fields p)"
      by blast
    with assms Some show ?thesis
      by (auto simp: getProfileById_def and_then_def dest: read_as_all_arrays)
  qed
next
  assume a: "name pd \<noteq> None \<and> (id' pd = None \<or> id' pd = Some 0)"
  from save_create_state[OF assms(1,2), of pd env now rnd] a obtain k where
    "snd (createOrUpdateProfile env now rnd pd svc)
       = svc\<lparr>db := Some (d\<lparr>profiles := profiles d @ [bound_row k (Some now) (Some now) pd],
                       profiles_seq := k\<rparr>)\<rparr>"
    by blast
  then show "\<exists>k row. snd (createOrUpdateProfile env now rnd pd svc)
                        = svc\<lparr>db := Some (d\<lparr>profiles := profiles d @ [row],
                                          profiles_seq := k\<rparr>)\<rparr>
                \<and> list_fields row
                     = map (\<lambda>l. Some (stringify (case l of None \<Rightarrow> JArray [] | Some v \<Rightarrow> v)))
                         (list_fields pd)"
    by (intro exI[where x = k] exI[where x = "bound_row k (Some now) (Some now) pd"])
       (simp add: bound_row_fields)
next
  assume a: "name pd \<noteq> None \<and> id' pd = Some j \<and> j \<noteq> 0"
  let ?d' = "d\<lparr>profiles :=
                 map (\<lambda>row. if id' row = j then bound_row j (createdAt row) (Some now) pd else row)
                   (profiles d)\<rparr>"
  have "snd (createOrUpdateProfile env now rnd pd svc) = svc\<lparr>db := Some ?d'\<rparr>"
    using save_update_state[OF assms(1,2), of pd j env now rnd] a by simp
  then show "\<exists>d'. snd (createOrUpdateProfile env now rnd pd svc) = svc\<lparr>db := Some d'\<rparr>
                \<and> length (profiles d') = length (profiles d)
                \<and> (\<forall>k < length (profiles d).
                      if id' (profiles d ! k) = j
                      then list_fields (profiles d' ! k)
                             = map (\<lambda>l. Some (stringify (case l of None \<Rightarrow> JArray []
                                                                    | Some v \<Rightarrow> v)))
                                 (list_fields pd)
                      else profiles d' ! k = profiles d ! k)"
    by (intro exI[where x = ?d']) (simp add: bound_row_fields)
next
  assume "list_all array_or_absent (list_fields pd)"
  with assms(3,2) show "\<exists>d'. db (snd (createOrUpdateProfile env now rnd pd svc)) = Some d'
                          \<and> lists_at_rest d'"
    by (rule lists_at_rest_save)
next
  show "lists_at_rest empty_database"
    by (simp add: lists_at_rest_def empty_database_def)
qed

theorem list_fields_invariant_witness:
  "\<exists>p. getProfileById 1 \<lparr>db = Some legacy_database, isWebFallback = False\<rparr> = Inr (Some p)
      \<and> list_all is_array (list_fields p)
      \<and> parents p = Some (JArray []) \<and> brothers p = Some (JArray [])
      \<and> sisters p = Some (JArray [])"
proof -
  let ?svc = "\<lparr>db = Some legacy_database, isWebFallback = False\<rparr>"
  have a: "\<not> isWebFallback ?svc" and b: "db ?svc = Some legacy_database" by simp_all
  have "list_all array_or_absent (list_fields ana)"
    by (simp add: ana_def list_fields_def array_or_absent_def)
  then have "list_all stored_list
               (list_fields (bound_row 1 (Some ''2023-01-01'') (Some ''2023-01-01'') ana))"
    by (rule bound_row_stored)
  then have "list_all stored_list (list_fields legacy_row)"
    by (simp add: legacy_row_def list_fields_def stored_list_def)
  then have c: "lists_at_rest legacy_database"
    by (simp add: lists_at_rest_def legacy_database_def)
  have f: "find (\<lambda>row. id' row = 1) (profiles legacy_database) = Some legacy_row"
    by (simp add: legacy_database_def legacy_row_def id_bound_row)
  have n: "parents legacy_row = None" "brothers legacy_row = None" "sisters legacy_row = None"
    by (simp_all add: legacy_row_def)
  from list_fields_invariant[OF a b c, of 1, THEN conjunct2, THEN conjunct1] f
  obtain p where p: "getProfileById 1 ?svc = Inr (Some p)" "list_all is_array (list_fields p)"
    "list_all2 read_as (list_fields legacy_row) (list_fields p)"
    by auto
  from p(3) n have "parents p = Some (JArray [])" "brothers p = Some (JArray [])"
    "sisters p = Some (JArray [])"
    by (simp_all add: list_fields_def read_as_def)
  with p(1,2) show ?thesis by blast
qed

section \<open>The update path\<close>

text \<open>
  C7, as stated, fails for the field \<^verbatim>\<open>name\<close>: the column is \<^verbatim>\<open>NOT NULL\<close>, so an update
  of an existing row with no name is rejected and overwrites nothing.
\<close>

theorem update_without_name_is_rejected:
  "createOrUpdateProfile signed_in ''2024-05-01'' 5 (ana\<lparr>id' := Some 1, name := None\<rparr>)
       \<lparr>db = Some ana_database, isWebFallback = False\<rparr>
     = (Inl not_null_name, \<lparr>db = Some ana_database, isWebFallback = False\<rparr>)
   \<and> map name (profiles ana_database) = [Some ''Ana'']"
  by (simp add: createOrUpdateProfile_def UPDATE_profiles_def ana_database_def
      bound_row_def ana_def)

text \<open>
  C7, amended: on the update path with a name in the input, every row with the given
  identifier has \<^verbatim>\<open>age\<close>, the text columns and the list columns overwritten from the
  input (an absent list as the text of the empty array, any other absent field as
  \<^verbatim>\<open>NULL\<close>) and \<^verbatim>\<open>updatedAt\<close> set to the current time; its \<^verbatim>\<open>id\<close> and \<^verbatim>\<open>createdAt\<close>, every
  other profile row and the other tables are unchanged; the call returns the given
  identifier when no value the remote calls raise is circular. With no name in the input
  and a row with that identifier, the call fails and the service is unchanged.
\<close>

theorem update_overwrites_row:
  assumes "\<not> isWebFallback svc" and "db svc = Some d" and "id' pd = Some i" and "i \<noteq> 0"
  shows "(name pd \<noteq> None \<longrightarrow>
           (\<exists>d'. snd (createOrUpdateProfile env now rnd pd svc) = svc\<lparr>db := Some d'\<rparr>
              \<and> ((\<forall>e \<in> set (raised env). \<not> circular e) \<longrightarrow>
                    fst (createOrUpdateProfile env now rnd pd svc) = Inr i)
              \<and> length (profiles d') = length (profiles d)
              \<and> (\<forall>k < length (profiles d).
                    if id' (profiles d ! k) = i
                    then id' (profiles d' ! k) = i
                       \<and> createdAt (profiles d' ! k) = createdAt (profiles d ! k)
                       \<and> updatedAt (profiles d' ! k) = Some now
                       \<and> age (profiles d' ! k) = age pd
                       \<and> text_fields (profiles d' ! k) = text_fields pd
                       \<and> list_fields (profiles d' ! k) = map list_text (list_fields pd)
                    else profiles d' ! k = profiles d ! k)
              \<and> profiles_seq d' = profiles_seq d \<and> reminders d' = reminders d
              \<and> interactions d' = interactions d \<and> life_events d' = life_events d
              \<and> feedback d' = feedback d))
       \<and> (name pd = None \<and> find (\<lambda>row. id' row = i) (profiles d) \<noteq> None \<longrightarrow>
            createOrUpdateProfile env now rnd pd svc = (Inl not_null_name, svc))"
proof (intro conjI impI)
  assume n: "name pd \<noteq> None"
  let ?d' = "d\<lparr>profiles :=
                 map (\<lambda>row. if id' row = i then bound_row i (createdAt row) (Some now) pd else row)
                   (profiles d)\<rparr>"
  have u: "createOrUpdateProfile env now rnd pd svc
          = ((case logProfileDataForCollection env pd Update (Some i) of
                Inl e \<Rightarrow> Inl e | Inr u \<Rightarrow> Inr i), svc\<lparr>db := Some ?d'\<rparr>)"
    using assms n by (intro save_update) auto
  then have "snd (createOrUpdateProfile env now rnd pd svc) = svc\<lparr>db := Some ?d'\<rparr>"
    by simp
  moreover have "(\<forall>e \<in> set (raised env). \<not> circular e) \<longrightarrow>
                    fst (createOrUpdateProfile env now rnd pd svc) = Inr i"
    using u by (auto simp: log_returns)
  moreover have "\<forall>k < length (profiles d).
                    if id' (profiles d ! k) = i
                    then id' (profiles ?d' ! k) = i
                       \<and> createdAt (profiles ?d' ! k) = createdAt (profiles d ! k)
                       \<and> updatedAt (profiles ?d' ! k) = Some now
                       \<and> age (profiles ?d' ! k) = age pd
                       \<and> text_fields (profiles ?d' ! k) = text_fields pd
                       \<and> list_fields (profiles ?d' ! k) = map list_text (list_fields pd)
                    else profiles ?d' ! k = profiles d ! k"
    by (simp add: bound_row_def text_fields_def list_fields_def)
  ultimately show "\<exists>d'. snd (createOrUpdateProfile env now rnd pd svc) = svc\<lparr>db := Some d'\<rparr>
              \<and> ((\<forall>e \<in> set (raised env). \<not> circular e) \<longrightarrow>
                    fst (createOrUpdateProfile env now rnd pd svc) = Inr i)
              \<and> length (profiles d') = length (profiles d)
              \<and> (\<forall>k < length (profiles d).
                    if id' (profiles d ! k) = i
                    then id' (profiles d' ! k) = i
                       \<and> createdAt (profiles d' ! k) = createdAt (profiles d ! k)
                       \<and> updatedAt (profiles d' ! k) = Some now
                       \<and> age (profiles d' ! k) = age pd
                       \<and> text_fields (profiles d' ! k) = text_fields pd
                       \<and> list_fields (profiles d' ! k) = map list_text (list_fields pd)
                    else profiles d' ! k = profiles d ! k)
              \<and> profiles_seq d' = profiles_seq d \<and> reminders d' = reminders d
              \<and> interactions d' = interactions d \<and> life_events d' = life_events d
              \<and> feedback d' = feedback d"
    by (intro exI[where x = ?d']) simp
next
  assume "name pd = None \<and> find (\<lambda>row. id' row = i) (profiles d) \<noteq> None"
  with assms show "createOrUpdateProfile env now rnd pd svc = (Inl not_null_name, svc)"
    by (simp add: createOrUpdateProfile_def UPDATE_profiles_def)
qed

theorem update_overwrites_row_witness:
  "\<exists>d'. createOrUpdateProfile offline ''2024-05-01'' 5 ana_renamed
            \<lparr>db = Some two_profiles, isWebFallback = False\<rparr>
          = (Inr 1, \<lparr>db = Some d', isWebFallback = False\<rparr>)
        \<and> map id' (profiles d') = [1, 2]
        \<and> map name (profiles d') = [Some ''Ana Maria'', Some ''Bob'']
        \<and> map createdAt (profiles d') = [Some ''2024-01-01'', Some ''2024-01-02'']
        \<and> map updatedAt (profiles d') = [Some ''2024-05-01'', Some ''2024-01-02'']
        \<and> map tags (profiles d') = [Some ''[]'', tags (profiles two_profiles ! 1)]
        \<and> profiles d' ! 1 = profiles two_profiles ! 1"
proof -
  let ?svc = "\<lparr>db = Some two_profiles, isWebFallback = False\<rparr>"
  have a: "\<not> isWebFallback ?svc" and b: "db ?svc = Some two_profiles"
    and c: "id' ana_renamed = Some 1" and e: "(1 :: int) \<noteq> 0"
    and n: "name ana_renamed \<noteq> None"
    by (simp_all add: ana_renamed_def)
  have l: "length (profiles two_profiles) = 2"
    and i0: "id' (profiles two_profiles ! 0) = 1" and i1: "id' (profiles two_profiles ! 1) = 2"
    and c0: "createdAt (profiles two_profiles ! 0) = Some ''2024-01-01''"
    and c1: "createdAt (profiles two_profiles ! 1) = Some ''2024-01-02''"
    and n1: "name (profiles two_profiles ! 1) = Some ''Bob''"
    and u1: "updatedAt (profiles two_profiles ! 1) = Some ''2024-01-02''"
    by (simp_all add: two_profiles_def bound_row_def)
  have h: "\<forall>e \<in> set (raised offline). \<not> circular e"
    by (simp add: raised_def offline_def circular_def)
  from update_overwrites_row[OF a b c e, of offline "''2024-05-01''" 5] n h
  obtain d' where sd: "snd (createOrUpdateProfile offline ''2024-05-01'' 5 ana_renamed ?svc)
                         = ?svc\<lparr>db := Some d'\<rparr>"
    and fd: "fst (createOrUpdateProfile offline ''2024-05-01'' 5 ana_renamed ?svc) = Inr 1"
    and d':
    "length (profiles d') = length (profiles two_profiles)"
    "\<forall>k < length (profiles two_profiles).
        if id' (profiles two_profiles ! k) = 1
        then id' (profiles d' ! k) = 1
           \<and> createdAt (profiles d' ! k) = createdAt (profiles two_profiles ! k)
           \<and> updatedAt (profiles d' ! k) = Some ''2024-05-01''
           \<and> age (profiles d' ! k) = age ana_renamed
           \<and> text_fields (profiles d' ! k) = text_fields ana_renamed
           \<and> list_fields (profiles d' ! k) = map list_text (list_fields ana_renamed)
        else profiles d' ! k = profiles two_profiles ! k"
    by blast
  from l have k0: "id' (profiles d' ! 0) = 1"
      "createdAt (profiles d' ! 0) = Some ''2024-01-01''"
      "updatedAt (profiles d' ! 0) = Some ''2024-05-01''"
      "text_fields (profiles d' ! 0) = text_fields ana_renamed"
      "list_fields (profiles d' ! 0) = map list_text (list_fields ana_renamed)"
    and k1: "profiles d' ! 1 = profiles two_profiles ! 1"
    using i0 i1 c0 d'(2)[rule_format, of 0] d'(2)[rule_format, of 1] by auto
  from d'(1) l obtain x y where xy: "profiles d' = [x, y]"
    by (auto simp: length_Suc_conv numeral_2_eq_2)
  from sd fd have "createOrUpdateProfile offline ''2024-05-01'' 5 ana_renamed ?svc
                     = (Inr 1, ?svc\<lparr>db := Some d'\<rparr>)"
    by (metis prod.collapse)
  with k0 k1 xy i1 c1 n1 u1 show ?thesis
    by (auto simp: text_fields_def list_fields_def ana_renamed_def ana_def list_text_def)
qed

section \<open>Schema migration\<close>

















section \<open>Listing reminders\<close>

lemma new_id_fresh:
  assumes "INSERT_INTO_profiles pd now d = Inr (i, d')"
  shows "i \<notin> set (map id' (profiles d))"
proof
  assume "i \<in> set (map id' (profiles d))"
  then have "i \<le> fold max (map id' (profiles d)) (profiles_seq d)"
    by (rule fold_max_member)
  moreover from assms have "i = fold max (map id' (profiles d)) (profiles_seq d) + 1"
    by (auto simp: INSERT_INTO_profiles_def Let_def split: if_splits)
  ultimately show False by simp
qed

text \<open>
  The identifiers of the profile rows are unique (\<^verbatim>\<open>id INTEGER PRIMARY KEY\<close>): the three
  statements that change the table keep them so.
\<close>

lemma distinct_ids_insert:
  assumes "distinct (map id' (profiles d))" and "INSERT_INTO_profiles pd now d = Inr (i, d')"
  shows "distinct (map id' (profiles d'))"
proof -
  from assms(2) have "map id' (profiles d') = map id' (profiles d) @ [i]"
    by (auto simp: INSERT_INTO_profiles_def Let_def id_bound_row split: if_splits)
  with assms(1) new_id_fresh[OF assms(2)] show ?thesis by simp
qed

lemma distinct_ids_update:
  assumes "distinct (map id' (profiles d))" and "UPDATE_profiles i pd now d = Inr d'"
  shows "distinct (map id' (profiles d'))"
proof -
  from assms(2) have "map id' (profiles d') = map id' (profiles d)"
    by (auto simp: UPDATE_profiles_def id_bound_row split: if_splits)
  with assms(1) show ?thesis by simp
qed

lemma distinct_ids_delete:
  assumes "distinct (map id' (profiles d))" and "db svc = Some d"
  shows "\<exists>d'. db (snd (deleteProfile i svc)) = Some d' \<and> distinct (map id' (profiles d'))"
  using assms by (simp add: deleteProfile_def Let_def distinct_map_filter)

lemma filter_unique_id:
  assumes "distinct (map id' ps)"
  shows "filter (\<lambda>p. k = Some (id' p)) ps
           = (case find (\<lambda>p. k = Some (id' p)) ps of None \<Rightarrow> [] | Some p \<Rightarrow> [p])"
  using assms
proof (induction ps)
  case Nil
  then show ?case by simp
next
  case (Cons p ps)
  show ?case
  proof (cases "k = Some (id' p)")
    case True
    with Cons.prems have "\<forall>q \<in> set ps. k \<noteq> Some (id' q)" by auto
    then have "filter (\<lambda>p. k = Some (id' p)) ps = []" by (simp add: filter_empty_conv)
    with True show ?thesis by simp
  next
    case False
    with Cons show ?thesis by simp
  qed
qed

lemma left_join_unique:
  "distinct (map id' ps) \<Longrightarrow> left_join_profiles ps r = [joined ps r]"
  by (simp add: left_join_profiles_def joined_def filter_unique_id
      split: option.splits)

lemma concat_left_join:
  "distinct (map id' ps) \<Longrightarrow> concat (map (left_join_profiles ps) rs) = map (joined ps) rs"
  by (induction rs) (simp_all add: left_join_unique)

lemma truncate_joined: "reminder_row.truncate (joined ps r) = r"
  by (simp add: joined_def reminder_row.truncate_def reminder_row.extend_def
      split: option.splits)

lemma joined_columns:
  "r_profileId (joined ps r) = r_profileId r"
  "r_scheduledFor (joined ps r) = r_scheduledFor r"
  "profileName (joined ps r) =
     (case find (\<lambda>p. r_profileId r = Some (id' p)) ps of None \<Rightarrow> None | Some p \<Rightarrow> name p)"
  "profilePhoto (joined ps r) =
     (case find (\<lambda>p. r_profileId r = Some (id' p)) ps of None \<Rightarrow> None | Some p \<Rightarrow> photoUri p)"
  by (simp_all add: joined_def reminder_row.extend_def reminder_object.fields_def
      reminder_row.defs reminder_object.defs split: option.splits)

text \<open>
  C10, as stated, fails: the order is that of the stored text, which is not that of the
  times when the texts carry different offsets. Of two reminders, the one due at 06:00
  UTC, written \<^verbatim>\<open>2024-02-01T06:00:00Z\<close>, is listed before the one due at 05:00 UTC,
  written \<^verbatim>\<open>2024-02-01T10:00:00+05:00\<close>.
\<close>

theorem reminders_not_in_time_order:
  "map_sum (\<lambda>e. e) (map (\<lambda>r. (r_id r, Date_parse (r_scheduledFor r))))
     (getAllReminders (\<lambda>t. ''unused'') 0 \<lparr>db = Some offset_reminders, isWebFallback = False\<rparr>)
     = Inr [(2, Some 1706767200000), (1, Some 1706763600000)]
   \<and> \<not> sorted [1706767200000, 1706763600000 :: int]"
proof -
  have a: "Date_parse ''2024-02-01T06:00:00Z'' = Some 1706767200000"
    by code_simp
  have b: "Date_parse ''2024-02-01T10:00:00+05:00'' = Some 1706763600000"
    by code_simp
  have "getAllReminders (\<lambda>t. ''unused'') 0 \<lparr>db = Some offset_reminders, isWebFallback = False\<rparr>
          = Inr (sort_key r_scheduledFor
                   (concat (map (left_join_profiles (profiles offset_reminders))
                      (reminders offset_reminders))))"
    by (simp add: getAllReminders_def)
  moreover have "map (\<lambda>r. (r_id r, r_scheduledFor r))
                   (sort_key r_scheduledFor
                     (concat (map (left_join_profiles (profiles offset_reminders))
                        (reminders offset_reminders))))
                   = [(2, ''2024-02-01T06:00:00Z''), (1, ''2024-02-01T10:00:00+05:00'')]"
    by (simp add: offset_reminders_def empty_database_def left_join_profiles_def
        reminder_row.extend_def reminder_object.fields_def reminder_row.defs
        reminder_object.defs)
  then have "map (\<lambda>p. (fst p, Date_parse (snd p)))
                   (map (\<lambda>r. (r_id r, r_scheduledFor r))
                     (sort_key r_scheduledFor
                       (concat (map (left_join_profiles (profiles offset_reminders))
                          (reminders offset_reminders)))))
                   = [(2, Some 1706767200000), (1, Some 1706763600000)]"
    by (simp only: list.map fst_conv snd_conv a b)
  then have "map (\<lambda>r. (r_id r, Date_parse (r_scheduledFor r)))
                   (sort_key r_scheduledFor
                     (concat (map (left_join_profiles (profiles offset_reminders))
                        (reminders offset_reminders))))
                   = [(2, Some 1706767200000), (1, Some 1706763600000)]"
    by (simp only: map_map o_def fst_conv snd_conv)
  ultimately show ?thesis by simp
qed

text \<open>
  C10, amended: outside web-fallback mode, with unique profile identifiers (the primary
  key), \<^verbatim>\<open>getAllReminders\<close> returns the stored reminders, each once, in ascending order of
  the \<^verbatim>\<open>scheduledFor\<close> text as stored (compared character by character, not as the time
  it denotes), each with the name and photo of the profile whose identifier is its
  \<^verbatim>\<open>profileId\<close>, and with \<^verbatim>\<open>null\<close> for both when there is no such profile.
\<close>

theorem reminders_sorted_and_joined:
  assumes "\<not> isWebFallback svc" and "db svc = Some d" and "distinct (map id' (profiles d))"
  shows "\<exists>rs. getAllReminders toISOString now svc = Inr rs
           \<and> sorted (map r_scheduledFor rs)
           \<and> mset (map reminder_row.truncate rs) = mset (reminders d)
           \<and> (\<forall>x \<in> set rs.
                 case find (\<lambda>p. r_profileId x = Some (id' p)) (profiles d) of
                   None \<Rightarrow> profileName x = None \<and> profilePhoto x = None
                 | Some p \<Rightarrow> profileName x = name p \<and> profilePhoto x = photoUri p)"
proof -
  let ?rs = "sort_key r_scheduledFor (map (joined (profiles d)) (reminders d))"
  have "concat (map (left_join_profiles (profiles d)) (reminders d))
          = map (joined (profiles d)) (reminders d)"
    using assms(3) by (rule concat_left_join)
  then have "getAllReminders toISOString now svc = Inr ?rs"
    using assms by (simp add: getAllReminders_def)
  moreover have "sorted (map r_scheduledFor ?rs)"
    by (rule sorted_sort_key)
  moreover have "mset (map reminder_row.truncate ?rs) = mset (reminders d)"
  proof -
    have "mset (map reminder_row.truncate ?rs)
            = image_mset reminder_row.truncate (mset (map (joined (profiles d)) (reminders d)))"
      by simp
    also have "\<dots> = mset (map (\<lambda>r. reminder_row.truncate (joined (profiles d) r)) (reminders d))"
      by (simp add: multiset.map_comp o_def)
    also have "\<dots> = mset (reminders d)"
      by (simp add: truncate_joined)
    finally show ?thesis .
  qed
  moreover have "\<forall>x \<in> set ?rs.
                 case find (\<lambda>p. r_profileId x = Some (id' p)) (profiles d) of
                   None \<Rightarrow> profileName x = None \<and> profilePhoto x = None
                 | Some p \<Rightarrow> profileName x = name p \<and> profilePhoto x = photoUri p"
    by (auto simp: joined_columns split: option.splits)
  ultimately show ?thesis by blast
qed

theorem reminders_sorted_and_joined_witness:
  "\<exists>rs. getAllReminders (\<lambda>t. ''unused'') 0 \<lparr>db = Some ana_database, isWebFallback = False\<rparr>
          = Inr rs
        \<and> map r_id rs = [2, 1]
        \<and> map r_scheduledFor rs = [''2024-02-01'', ''2024-03-01'']
        \<and> map profileName rs = [Some ''Ana'', None]"
proof -
  let ?svc = "\<lparr>db = Some ana_database, isWebFallback = False\<rparr>"
  have a: "\<not> isWebFallback ?svc" and b: "db ?svc = Some ana_database"
    and c: "distinct (map id' (profiles ana_database))"
    by (simp_all add: ana_database_def)
  have "getAllReminders (\<lambda>t. ''unused'') 0 ?svc
          = Inr (sort_key r_scheduledFor
                   (concat (map (left_join_profiles (profiles ana_database))
                      (reminders ana_database))))"
    by (simp add: getAllReminders_def)
  moreover have "map r_id (sort_key r_scheduledFor
                   (concat (map (left_join_profiles (profiles ana_database))
                      (reminders ana_database)))) = [2, 1]"
    "map r_scheduledFor (sort_key r_scheduledFor
                   (concat (map (left_join_profiles (profiles ana_database))
                      (reminders ana_database)))) = [''2024-02-01'', ''2024-03-01'']"
    "map profileName (sort_key r_scheduledFor
                   (concat (map (left_join_profiles (profiles ana_database))
                      (reminders ana_database)))) = [Some ''Ana'', None]"
    by (simp_all add: ana_database_def left_join_profiles_def bound_row_def ana_def
        reminder_row.extend_def reminder_object.fields_def reminder_row.defs
        reminder_object.defs)
  ultimately show ?thesis
    using reminders_sorted_and_joined[OF a b c, of "\<lambda>t. ''unused''" 0] by auto
qed

end
